theory Spec2Isabelle
  imports Complex_Main
begin

section \<open>The Alligator strategy backtest (alligator\_strategy.py)\<close>

text \<open>
  The development embeds two functions of \<^verbatim>\<open>alligator_strategy.py\<close>:
  \<^verbatim>\<open>generate_signals\<close> (lines 102-115) and \<^verbatim>\<open>backtest_strategy\<close>
  (lines 119-192).

  Numbers. The source computes with IEEE double precision values (pandas columns of
  \<^verbatim>\<open>float64\<close>). They are modelled here by \<^typ>\<open>real\<close>: every arithmetic operation
  is exact, and the decimal literals of the source (\<^verbatim>\<open>0.01\<close>, \<^verbatim>\<open>0.02\<close>,
  \<^verbatim>\<open>1.75\<close>, ...) are the rationals they denote. Rounding, overflow and NaN inputs are
  therefore outside the model. A division whose divisor is zero does not raise in the
  source (numpy yields an infinity or NaN and the run goes on with it); a real number cannot
  stand for that value, so the model ends such a run with the outcome \<open>Zero_Divisor\<close>
  and nothing is claimed about it. A second embedding of \<^verbatim>\<open>backtest_strategy\<close>, with
  the infinities and NaN as values, follows the source through such divisions; the two agree
  wherever the first returns.

  Effects. \<^verbatim>\<open>record_trade\<close> writes a row to an SQLite table and logs; it catches every
  exception, returns nothing and touches no local variable of \<^verbatim>\<open>backtest_strategy\<close>.
  The logger calls likewise. Neither is part of the model, which follows the local
  variables \<^verbatim>\<open>position\<close>, \<^verbatim>\<open>portfolio\<close>, \<^verbatim>\<open>trades\<close>, \<^verbatim>\<open>entry_price\<close> and
  \<^verbatim>\<open>trailing_stop\<close>.
\<close>

subsection \<open>Data\<close>

text \<open>
  One row of the data frame: \<open>index\<close> is the row label (\<^verbatim>\<open>data.index[i]\<close>, a timestamp,
  here a number), the other fields are the columns read by the two functions.
\<close>

record bar =
  index :: nat
  Close :: real
  Lips :: real
  Teeth :: real
  Jaw :: real
  ADX :: real
  CMO :: real
  Stoch_RSI :: real
  ATR :: real
  Volume_Change :: real
  EMA_50 :: real
  MACD :: real
  MACD_signal :: real
  Signal :: int

datatype direction = Long | Short

datatype status = Open | Closed

text \<open>
  A trade is the dictionary appended to \<^verbatim>\<open>trades\<close>; \<^verbatim>\<open>None\<close> is \<open>None\<close>. The key
  \<^verbatim>\<open>'entry_price'\<close> is the field \<open>trade_entry_price\<close>, since \<open>entry_price\<close> names the
  local variable below.
\<close>

record trade =
  timestamp :: nat
  symbol :: string
  direction :: direction
  trade_entry_price :: real
  exit_price :: "real option"
  profit :: "real option"
  status :: status

text \<open>The local variables of \<^verbatim>\<open>backtest_strategy\<close> that live across loop iterations.\<close>

record state =
  position :: real
  portfolio :: real
  trades :: "trade list"
  entry_price :: real
  trailing_stop :: real

text \<open>
  The two ways a run of the model ends without a result. \<open>Index_Error\<close> is Python's
  IndexError, raised by \<^verbatim>\<open>trades[-1]\<close> on an empty list and by
  \<^verbatim>\<open>data['Close'].iat[-1]\<close> on an empty frame. \<open>Zero_Divisor\<close> marks a division
  by zero at lines 126, 139-140 or 149-150: the source goes on with an infinity or NaN
  there, which the real-valued model does not follow.
\<close>

datatype fault = Zero_Divisor | Index_Error

subsection \<open>generate\_signals\<close>

definition long_condition :: "bar \<Rightarrow> bool" where
  "long_condition r \<longleftrightarrow>
     Lips r > Teeth r \<and> Teeth r > Jaw r \<and> Close r > Lips r \<and>
     ADX r > 30 \<and> CMO r > 40 \<and> Stoch_RSI r > 60 \<and> Volume_Change r > 0 \<and>
     Close r > EMA_50 r \<and> MACD r > MACD_signal r"

definition short_condition :: "bar \<Rightarrow> bool" where
  "short_condition r \<longleftrightarrow>
     Lips r < Teeth r \<and> Teeth r < Jaw r \<and> Close r < Lips r \<and>
     ADX r > 30 \<and> CMO r < - 40 \<and> Stoch_RSI r < 40 \<and> Volume_Change r < 0 \<and>
     Close r < EMA_50 r \<and> MACD r < MACD_signal r"

text \<open>\<^verbatim>\<open>data.loc[mask, 'Signal'] = v\<close>: the rows where the mask holds get the value.\<close>

definition loc_assign :: "bool list \<Rightarrow> int \<Rightarrow> bar list \<Rightarrow> bar list" where
  "loc_assign msk v data = map (\<lambda>(m, r). if m then r\<lparr>Signal := v\<rparr> else r) (zip msk data)"

definition generate_signals :: "bar list \<Rightarrow> bar list" where
  "generate_signals data =
     (let data0 = map (\<lambda>r. r\<lparr>Signal := 0\<rparr>) data;
          long_mask = map long_condition data0;
          short_mask = map short_condition data0;
          data1 = loc_assign long_mask 1 data0
      in loc_assign short_mask (- 1) data1)"

subsection \<open>backtest\_strategy\<close>

text \<open>Lines 127-135: the two distances, chosen by the volatility factor of the bar.\<close>

definition stop_loss :: "real \<Rightarrow> real \<Rightarrow> real" where
  "stop_loss atr volatility_factor =
     (if volatility_factor < 0.01 then atr * 2
      else if volatility_factor > 0.02 then atr * 1.5
      else atr * 1.75)"

definition take_profit :: "real \<Rightarrow> real \<Rightarrow> real" where
  "take_profit atr volatility_factor =
     (if volatility_factor < 0.01 then atr * 4
      else if volatility_factor > 0.02 then atr * 3
      else atr * 3.5)"

text \<open>Lines 139 and 149.\<close>

definition position_size_factor :: "real \<Rightarrow> real" where
  "position_size_factor volatility_factor = max 0.5 (min 1.5 (0.02 / volatility_factor))"

text \<open>
  \<^verbatim>\<open>trades[-1].update({'exit_price': .., 'profit': .., 'status': 'Closed'})\<close>, for a
  list that is not empty.
\<close>

definition close_last :: "trade list \<Rightarrow> real \<Rightarrow> real \<Rightarrow> trade list" where
  "close_last ts ep pr =
     butlast ts @ [(last ts)\<lparr>exit_price := Some ep, profit := Some pr, status := Closed\<rparr>]"

definition open_trade :: "bar \<Rightarrow> string \<Rightarrow> direction \<Rightarrow> trade" where
  "open_trade b symb d =
     \<lparr>timestamp = index b, symbol = symb, direction = d, trade_entry_price = Close b,
      exit_price = None, profit = None, status = Open\<rparr>"

text \<open>One iteration of the loop, lines 125-179.\<close>

definition backtest_step :: "string \<Rightarrow> real \<Rightarrow> real \<Rightarrow> bar \<Rightarrow> state \<Rightarrow> fault + state" where
  "backtest_step symb initial_capital risk_per_trade b s =
     (let atr = ATR b in
      if Close b = 0 then Inl Zero_Divisor
      else
        let volatility_factor = atr / Close b;
            sl = stop_loss atr volatility_factor;
            tp = take_profit atr volatility_factor
        in
        if Signal b = 1 \<and> position s = 0 then
          (if volatility_factor = 0 \<or> sl = 0 then Inl Zero_Divisor
           else Inr (s\<lparr>position :=
                          (initial_capital * risk_per_trade * position_size_factor volatility_factor) / sl,
                        entry_price := Close b,
                        trailing_stop := Close b - atr,
                        trades := trades s @ [open_trade b symb Long]\<rparr>))
        else if Signal b = - 1 \<and> position s = 0 then
          (if volatility_factor = 0 \<or> sl = 0 then Inl Zero_Divisor
           else Inr (s\<lparr>position :=
                          - (initial_capital * risk_per_trade * position_size_factor volatility_factor) / sl,
                        entry_price := Close b,
                        trailing_stop := Close b + atr,
                        trades := trades s @ [open_trade b symb Short]\<rparr>))
        else if position s \<noteq> 0 then
          (let ep = Close b;
               ts = (if position s > 0 \<and> ep > entry_price s + atr
                       then max (trailing_stop s) (ep - atr * 1.5)
                     else if position s < 0 \<and> ep < entry_price s - atr
                       then min (trailing_stop s) (ep + atr * 1.5)
                     else trailing_stop s);
               s1 = s\<lparr>trailing_stop := ts\<rparr>
           in
           if position s > 0 \<and> (ep \<ge> entry_price s + tp \<or> ep \<le> ts) then
             (let pr = (ep - entry_price s) * position s in
              if trades s = [] then Inl Index_Error
              else Inr (s1\<lparr>portfolio := portfolio s + pr, position := 0,
                           trades := close_last (trades s) ep pr\<rparr>))
           else if position s < 0 \<and> (ep \<le> entry_price s - tp \<or> ep \<ge> ts) then
             (let pr = (entry_price s - ep) * \<bar>position s\<bar> in
              if trades s = [] then Inl Index_Error
              else Inr (s1\<lparr>portfolio := portfolio s + pr, position := 0,
                           trades := close_last (trades s) ep pr\<rparr>))
           else Inr s1)
        else Inr s)"

text \<open>The loop of line 124: the bars in order, stopping at the first fault.\<close>

fun run_bars :: "string \<Rightarrow> real \<Rightarrow> real \<Rightarrow> bar list \<Rightarrow> state \<Rightarrow> fault + state" where
  "run_bars symb initial_capital risk_per_trade [] s = Inr s"
| "run_bars symb initial_capital risk_per_trade (b # bs) s =
     (case backtest_step symb initial_capital risk_per_trade b s of
        Inl e \<Rightarrow> Inl e
      | Inr s' \<Rightarrow> run_bars symb initial_capital risk_per_trade bs s')"

text \<open>Lines 121-122.\<close>

definition initial_state :: "real \<Rightarrow> state" where
  "initial_state initial_capital =
     \<lparr>position = 0, portfolio = initial_capital, trades = [], entry_price = 0, trailing_stop = 0\<rparr>"

text \<open>
  Lines 182-189. \<^verbatim>\<open>trades[-1]\<close> and \<^verbatim>\<open>data['Close'].iat[-1]\<close> raise IndexError on
  an empty list or frame. The variable \<^verbatim>\<open>position\<close> is not assigned here.
\<close>

definition forced_closure :: "bar list \<Rightarrow> state \<Rightarrow> fault + state" where
  "forced_closure data s =
     (if position s \<noteq> 0 then
        (if trades s = [] \<or> data = [] then Inl Index_Error
         else
           let ep = Close (last data);
               pr = (if position s > 0 then (ep - entry_price s) * position s
                     else (entry_price s - ep) * \<bar>position s\<bar>)
           in Inr (s\<lparr>portfolio := portfolio s + pr, trades := close_last (trades s) ep pr\<rparr>))
      else Inr s)"

definition backtest_strategy :: "bar list \<Rightarrow> string \<Rightarrow> real \<Rightarrow> real \<Rightarrow> fault + (trade list \<times> real)" where
  "backtest_strategy data symb initial_capital risk_per_trade =
     (case run_bars symb initial_capital risk_per_trade data (initial_state initial_capital) of
        Inl e \<Rightarrow> Inl e
      | Inr s \<Rightarrow>
          (case forced_closure data s of
             Inl e \<Rightarrow> Inl e
           | Inr s' \<Rightarrow> Inr (trades s', portfolio s')))"

subsection \<open>backtest\_strategy with the special values of numpy\<close>

text \<open>
  The embedding above stops at a zero divisor; the source does not. Its numbers are
  \<^verbatim>\<open>numpy.float64\<close> values (\<^verbatim>\<open>data[...].iat[i]\<close>), and every quotient of the loop has
  such a value as one operand, so a division by zero raises nothing and yields an infinity
  or NaN, with which the run goes on. This second embedding of lines 119-192 follows those
  values. A number is a finite real, the negative zero, one of the two infinities, or NaN;
  \<open>Fin 0\<close> is the positive zero. Finite results are still exact (no rounding, no overflow),
  and the inputs are finite, a zero among them being the positive zero. The operations
  follow IEEE 754 on the special values and on the sign of a zero result.
\<close>

datatype npfloat = Fin real | NegZero | PInf | NInf | NaN

definition is_nan :: "npfloat \<Rightarrow> bool" where
  "is_nan x \<longleftrightarrow> x = NaN"

definition is_inf :: "npfloat \<Rightarrow> bool" where
  "is_inf x \<longleftrightarrow> x = PInf \<or> x = NInf"

definition is_zero :: "npfloat \<Rightarrow> bool" where
  "is_zero x \<longleftrightarrow> x = Fin 0 \<or> x = NegZero"

text \<open>The sign bit, and the value of a number that is finite.\<close>

fun sign_bit :: "npfloat \<Rightarrow> bool" where
  "sign_bit (Fin r) = (r < 0)"
| "sign_bit NegZero = True"
| "sign_bit PInf = False"
| "sign_bit NInf = True"
| "sign_bit NaN = False"

fun fin_val :: "npfloat \<Rightarrow> real" where
  "fin_val (Fin r) = r"
| "fin_val NegZero = 0"
| "fin_val PInf = 0"
| "fin_val NInf = 0"
| "fin_val NaN = 0"

definition signed_zero :: "bool \<Rightarrow> npfloat" where
  "signed_zero sg = (if sg then NegZero else Fin 0)"

definition signed_inf :: "bool \<Rightarrow> npfloat" where
  "signed_inf sg = (if sg then NInf else PInf)"

text \<open>A finite result \<open>r\<close>; when it is zero, its sign is the one given.\<close>

definition fin_result :: "real \<Rightarrow> bool \<Rightarrow> npfloat" where
  "fin_result r sg = (if r = 0 then signed_zero sg else Fin r)"

definition np_neg :: "npfloat \<Rightarrow> npfloat" where
  "np_neg x =
     (case x of
        Fin r \<Rightarrow> (if r = 0 then NegZero else Fin (- r))
      | NegZero \<Rightarrow> Fin 0
      | PInf \<Rightarrow> NInf
      | NInf \<Rightarrow> PInf
      | NaN \<Rightarrow> NaN)"

definition np_abs :: "npfloat \<Rightarrow> npfloat" where
  "np_abs x =
     (case x of
        Fin r \<Rightarrow> Fin \<bar>r\<bar>
      | NegZero \<Rightarrow> Fin 0
      | PInf \<Rightarrow> PInf
      | NInf \<Rightarrow> PInf
      | NaN \<Rightarrow> NaN)"

definition np_mul :: "npfloat \<Rightarrow> npfloat \<Rightarrow> npfloat" where
  "np_mul x y =
     (if is_nan x \<or> is_nan y then NaN
      else if (is_inf x \<and> is_zero y) \<or> (is_zero x \<and> is_inf y) then NaN
      else if is_inf x \<or> is_inf y then signed_inf (sign_bit x \<noteq> sign_bit y)
      else fin_result (fin_val x * fin_val y) (sign_bit x \<noteq> sign_bit y))"

definition np_div :: "npfloat \<Rightarrow> npfloat \<Rightarrow> npfloat" where
  "np_div x y =
     (if is_nan x \<or> is_nan y then NaN
      else if (is_zero x \<and> is_zero y) \<or> (is_inf x \<and> is_inf y) then NaN
      else if is_inf x \<or> is_zero y then signed_inf (sign_bit x \<noteq> sign_bit y)
      else if is_inf y then signed_zero (sign_bit x \<noteq> sign_bit y)
      else fin_result (fin_val x / fin_val y) (sign_bit x \<noteq> sign_bit y))"

definition np_add :: "npfloat \<Rightarrow> npfloat \<Rightarrow> npfloat" where
  "np_add x y =
     (if is_nan x \<or> is_nan y then NaN
      else if is_inf x \<and> is_inf y then (if x = y then x else NaN)
      else if is_inf x then x
      else if is_inf y then y
      else fin_result (fin_val x + fin_val y) (sign_bit x \<and> sign_bit y))"

definition np_sub :: "npfloat \<Rightarrow> npfloat \<Rightarrow> npfloat" where
  "np_sub x y = np_add x (np_neg y)"

text \<open>Comparisons: false as soon as an operand is NaN; the two zeros are equal.\<close>

definition np_lt :: "npfloat \<Rightarrow> npfloat \<Rightarrow> bool" where
  "np_lt x y \<longleftrightarrow>
     \<not> is_nan x \<and> \<not> is_nan y \<and>
     (if x = NInf then y \<noteq> NInf
      else if x = PInf then False
      else if y = PInf then True
      else if y = NInf then False
      else fin_val x < fin_val y)"

definition np_gt :: "npfloat \<Rightarrow> npfloat \<Rightarrow> bool" where
  "np_gt x y \<longleftrightarrow> np_lt y x"

definition np_le :: "npfloat \<Rightarrow> npfloat \<Rightarrow> bool" where
  "np_le x y \<longleftrightarrow> \<not> is_nan x \<and> \<not> is_nan y \<and> \<not> np_lt y x"

definition np_ge :: "npfloat \<Rightarrow> npfloat \<Rightarrow> bool" where
  "np_ge x y \<longleftrightarrow> np_le y x"

definition np_eq :: "npfloat \<Rightarrow> npfloat \<Rightarrow> bool" where
  "np_eq x y \<longleftrightarrow> np_le x y \<and> np_le y x"

definition np_ne :: "npfloat \<Rightarrow> npfloat \<Rightarrow> bool" where
  "np_ne x y \<longleftrightarrow> \<not> np_eq x y"

text \<open>
  Python's \<^verbatim>\<open>min(a, b)\<close> and \<^verbatim>\<open>max(a, b)\<close>: the first argument, unless the second is
  smaller (greater).
\<close>

definition py_min :: "npfloat \<Rightarrow> npfloat \<Rightarrow> npfloat" where
  "py_min a b = (if np_lt b a then b else a)"

definition py_max :: "npfloat \<Rightarrow> npfloat \<Rightarrow> npfloat" where
  "py_max a b = (if np_gt b a then b else a)"

record trade_np =
  timestamp_np :: nat
  symbol_np :: string
  direction_np :: direction
  trade_entry_price_np :: npfloat
  exit_price_np :: "npfloat option"
  profit_np :: "npfloat option"
  status_np :: status

record state_np =
  position_np :: npfloat
  portfolio_np :: npfloat
  trades_np :: "trade_np list"
  entry_price_np :: npfloat
  trailing_stop_np :: npfloat

definition stop_loss_np :: "npfloat \<Rightarrow> npfloat \<Rightarrow> npfloat" where
  "stop_loss_np atr volatility_factor =
     (if np_lt volatility_factor (Fin 0.01) then np_mul atr (Fin 2)
      else if np_gt volatility_factor (Fin 0.02) then np_mul atr (Fin 1.5)
      else np_mul atr (Fin 1.75))"

definition take_profit_np :: "npfloat \<Rightarrow> npfloat \<Rightarrow> npfloat" where
  "take_profit_np atr volatility_factor =
     (if np_lt volatility_factor (Fin 0.01) then np_mul atr (Fin 4)
      else if np_gt volatility_factor (Fin 0.02) then np_mul atr (Fin 3)
      else np_mul atr (Fin 3.5))"

definition position_size_factor_np :: "npfloat \<Rightarrow> npfloat" where
  "position_size_factor_np volatility_factor =
     py_max (Fin 0.5) (py_min (Fin 1.5) (np_div (Fin 0.02) volatility_factor))"

definition close_last_np :: "trade_np list \<Rightarrow> npfloat \<Rightarrow> npfloat \<Rightarrow> trade_np list" where
  "close_last_np ts ep pr =
     butlast ts @
       [(last ts)\<lparr>exit_price_np := Some ep, profit_np := Some pr, status_np := Closed\<rparr>]"

definition open_trade_np :: "bar \<Rightarrow> string \<Rightarrow> direction \<Rightarrow> trade_np" where
  "open_trade_np b symb d =
     \<lparr>timestamp_np = index b, symbol_np = symb, direction_np = d,
      trade_entry_price_np = Fin (Close b), exit_price_np = None, profit_np = None,
      status_np = Open\<rparr>"

text \<open>One iteration of the loop, lines 125-179. The only fault left is the IndexError.\<close>

definition backtest_step_np ::
  "string \<Rightarrow> real \<Rightarrow> real \<Rightarrow> bar \<Rightarrow> state_np \<Rightarrow> fault + state_np" where
  "backtest_step_np symb initial_capital risk_per_trade b s =
     (let atr = Fin (ATR b);
          volatility_factor = np_div atr (Fin (Close b));
          sl = stop_loss_np atr volatility_factor;
          tp = take_profit_np atr volatility_factor
      in
      if Signal b = 1 \<and> np_eq (position_np s) (Fin 0) then
        Inr (s\<lparr>position_np :=
                  np_div (np_mul (np_mul (Fin initial_capital) (Fin risk_per_trade))
                                 (position_size_factor_np volatility_factor)) sl,
                entry_price_np := Fin (Close b),
                trailing_stop_np := np_sub (Fin (Close b)) atr,
                trades_np := trades_np s @ [open_trade_np b symb Long]\<rparr>)
      else if Signal b = - 1 \<and> np_eq (position_np s) (Fin 0) then
        Inr (s\<lparr>position_np :=
                  np_div (np_neg (np_mul (np_mul (Fin initial_capital) (Fin risk_per_trade))
                                         (position_size_factor_np volatility_factor))) sl,
                entry_price_np := Fin (Close b),
                trailing_stop_np := np_add (Fin (Close b)) atr,
                trades_np := trades_np s @ [open_trade_np b symb Short]\<rparr>)
      else if np_ne (position_np s) (Fin 0) then
        (let ep = Fin (Close b);
             ts = (if np_gt (position_np s) (Fin 0) \<and> np_gt ep (np_add (entry_price_np s) atr)
                     then py_max (trailing_stop_np s) (np_sub ep (np_mul atr (Fin 1.5)))
                   else if np_lt (position_np s) (Fin 0) \<and>
                           np_lt ep (np_sub (entry_price_np s) atr)
                     then py_min (trailing_stop_np s) (np_add ep (np_mul atr (Fin 1.5)))
                   else trailing_stop_np s);
             s1 = s\<lparr>trailing_stop_np := ts\<rparr>
         in
         if np_gt (position_np s) (Fin 0) \<and>
            (np_ge ep (np_add (entry_price_np s) tp) \<or> np_le ep ts) then
           (let pr = np_mul (np_sub ep (entry_price_np s)) (position_np s) in
            if trades_np s = [] then Inl Index_Error
            else Inr (s1\<lparr>portfolio_np := np_add (portfolio_np s) pr, position_np := Fin 0,
                         trades_np := close_last_np (trades_np s) ep pr\<rparr>))
         else if np_lt (position_np s) (Fin 0) \<and>
                 (np_le ep (np_sub (entry_price_np s) tp) \<or> np_ge ep ts) then
           (let pr = np_mul (np_sub (entry_price_np s) ep) (np_abs (position_np s)) in
            if trades_np s = [] then Inl Index_Error
            else Inr (s1\<lparr>portfolio_np := np_add (portfolio_np s) pr, position_np := Fin 0,
                         trades_np := close_last_np (trades_np s) ep pr\<rparr>))
         else Inr s1)
      else Inr s)"

fun run_bars_np :: "string \<Rightarrow> real \<Rightarrow> real \<Rightarrow> bar list \<Rightarrow> state_np \<Rightarrow> fault + state_np" where
  "run_bars_np symb initial_capital risk_per_trade [] s = Inr s"
| "run_bars_np symb initial_capital risk_per_trade (b # bs) s =
     (case backtest_step_np symb initial_capital risk_per_trade b s of
        Inl e \<Rightarrow> Inl e
      | Inr s' \<Rightarrow> run_bars_np symb initial_capital risk_per_trade bs s')"

definition initial_state_np :: "real \<Rightarrow> state_np" where
  "initial_state_np initial_capital =
     \<lparr>position_np = Fin 0, portfolio_np = Fin initial_capital, trades_np = [],
      entry_price_np = Fin 0, trailing_stop_np = Fin 0\<rparr>"

definition forced_closure_np :: "bar list \<Rightarrow> state_np \<Rightarrow> fault + state_np" where
  "forced_closure_np data s =
     (if np_ne (position_np s) (Fin 0) then
        (if trades_np s = [] \<or> data = [] then Inl Index_Error
         else
           let ep = Fin (Close (last data));
               pr = (if np_gt (position_np s) (Fin 0)
                       then np_mul (np_sub ep (entry_price_np s)) (position_np s)
                     else np_mul (np_sub (entry_price_np s) ep) (np_abs (position_np s)))
           in Inr (s\<lparr>portfolio_np := np_add (portfolio_np s) pr,
                      trades_np := close_last_np (trades_np s) ep pr\<rparr>))
      else Inr s)"

definition backtest_strategy_np ::
  "bar list \<Rightarrow> string \<Rightarrow> real \<Rightarrow> real \<Rightarrow> fault + (trade_np list \<times> npfloat)" where
  "backtest_strategy_np data symb initial_capital risk_per_trade =
     (case run_bars_np symb initial_capital risk_per_trade data
             (initial_state_np initial_capital) of
        Inl e \<Rightarrow> Inl e
      | Inr s \<Rightarrow>
          (case forced_closure_np data s of
             Inl e \<Rightarrow> Inl e
           | Inr s' \<Rightarrow> Inr (trades_np s', portfolio_np s')))"

subsection \<open>Notions used by the properties\<close>

text \<open>
  The sum of the \<^verbatim>\<open>profit\<close> entries of the trades whose \<^verbatim>\<open>status\<close> is
  \<^verbatim>\<open>'Closed'\<close>. An entry \<^verbatim>\<open>None\<close> counts as 0 here; the conservation theorem
  also shows that no closed trade of a run has one.
\<close>

definition closed_profit :: "trade list \<Rightarrow> real" where
  "closed_profit ts =
     sum_list (map (\<lambda>t. case profit t of Some p \<Rightarrow> p | None \<Rightarrow> 0)
                   (filter (\<lambda>t. status t = Closed) ts))"

text \<open>While \<^verbatim>\<open>position\<close> is not zero, the last trade of the list is the open one.\<close>

definition open_inv :: "state \<Rightarrow> bool" where
  "open_inv s \<longleftrightarrow> (position s \<noteq> 0 \<longrightarrow> trades s \<noteq> [] \<and> status (last (trades s)) = Open)"

definition profit_inv :: "state \<Rightarrow> bool" where
  "profit_inv s \<longleftrightarrow> (\<forall>t \<in> set (trades s). status t = Closed \<longrightarrow> profit t \<noteq> None)"

text \<open>
  With a zero position every trade of the list is closed; otherwise the last one is open
  and the others are closed.
\<close>

definition ledger_inv :: "state \<Rightarrow> bool" where
  "ledger_inv s \<longleftrightarrow>
     (if position s = 0 then \<forall>t \<in> set (trades s). status t = Closed
      else trades s \<noteq> [] \<and> status (last (trades s)) = Open \<and>
           (\<forall>t \<in> set (butlast (trades s)). status t = Closed))"

text \<open>
  A bar for concrete runs: row label, close, ATR and signal as given, the columns that
  \<^verbatim>\<open>backtest_strategy\<close> does not read set to 0.
\<close>

definition plain_bar :: "nat \<Rightarrow> real \<Rightarrow> real \<Rightarrow> int \<Rightarrow> bar" where
  "plain_bar i c a sg =
     \<lparr>index = i, Close = c, Lips = 0, Teeth = 0, Jaw = 0, ADX = 0, CMO = 0, Stoch_RSI = 0,
      ATR = a, Volume_Change = 0, EMA_50 = 0, MACD = 0, MACD_signal = 0, Signal = sg\<rparr>"

text \<open>
  Scenario A of the specification: a Long entry at close 100 with ATR 2, initial capital
  10000 and risk 0.03, as the state after the entry bar and the state after the exit bar
  at close 108.
\<close>

definition scenario_open :: "string \<Rightarrow> state" where
  "scenario_open symb =
     \<lparr>position = 600 / 7, portfolio = 10000,
      trades = [\<lparr>timestamp = 0, symbol = symb, direction = Long, trade_entry_price = 100,
                 exit_price = None, profit = None, status = Open\<rparr>],
      entry_price = 100, trailing_stop = 98\<rparr>"

definition scenario_closed :: "string \<Rightarrow> state" where
  "scenario_closed symb =
     \<lparr>position = 0, portfolio = 10000 + 4800 / 7,
      trades = [\<lparr>timestamp = 0, symbol = symb, direction = Long, trade_entry_price = 100,
                 exit_price = Some 108, profit = Some (4800 / 7), status = Closed\<rparr>],
      entry_price = 100, trailing_stop = 105\<rparr>"

text \<open>A row on which the nine long conditions hold.\<close>

definition long_bar :: bar where
  "long_bar = \<lparr>index = 0, Close = 110, Lips = 105, Teeth = 102, Jaw = 100, ADX = 35, CMO = 45,
     Stoch_RSI = 70, ATR = 2, Volume_Change = 0.1, EMA_50 = 95, MACD = 1.5, MACD_signal = 1,
     Signal = 7\<rparr>"

text \<open>
  The clamp of the specification: \<open>x\<close> held between \<open>lo\<close> and \<open>hi\<close>.
\<close>

definition clamp :: "real \<Rightarrow> real \<Rightarrow> real \<Rightarrow> real" where
  "clamp x lo hi = (if x < lo then lo else if x > hi then hi else x)"

text \<open>
  The state reached from \<open>scenario_open\<close> by a bar with close 104 and ATR 1, and a Short
  position entered at close 100 with ATR 2 together with the state it reaches by a bar with
  close 96 and ATR 1.
\<close>

definition tp_exit_state :: "string \<Rightarrow> state" where
  "tp_exit_state symb =
     \<lparr>position = 0, portfolio = 10000 + 2400 / 7,
      trades = [\<lparr>timestamp = 0, symbol = symb, direction = Long, trade_entry_price = 100,
                 exit_price = Some 104, profit = Some (2400 / 7), status = Closed\<rparr>],
      entry_price = 100, trailing_stop = 102.5\<rparr>"

definition short_open :: "string \<Rightarrow> state" where
  "short_open symb =
     \<lparr>position = - (600 / 7), portfolio = 10000,
      trades = [\<lparr>timestamp = 0, symbol = symb, direction = Short, trade_entry_price = 100,
                 exit_price = None, profit = None, status = Open\<rparr>],
      entry_price = 100, trailing_stop = 102\<rparr>"

definition short_exit_state :: "string \<Rightarrow> state" where
  "short_exit_state symb =
     \<lparr>position = 0, portfolio = 10000 + 2400 / 7,
      trades = [\<lparr>timestamp = 0, symbol = symb, direction = Short, trade_entry_price = 100,
                 exit_price = Some 96, profit = Some (2400 / 7), status = Closed\<rparr>],
      entry_price = 100, trailing_stop = 97.5\<rparr>"

text \<open>
  In the second embedding: while \<^verbatim>\<open>position != 0\<close> holds, the list of trades is not
  empty.
\<close>

definition open_inv_np :: "state_np \<Rightarrow> bool" where
  "open_inv_np s \<longleftrightarrow> (np_ne (position_np s) (Fin 0) \<longrightarrow> trades_np s \<noteq> [])"

text \<open>
  How the two embeddings are compared: a number of the second one agrees with a real when
  it is finite and has that value (either zero agrees with 0), and trades and states agree
  field by field.
\<close>

definition finite_np :: "npfloat \<Rightarrow> bool" where
  "finite_np x = (case x of Fin r \<Rightarrow> True | NegZero \<Rightarrow> True | PInf \<Rightarrow> False
                  | NInf \<Rightarrow> False | NaN \<Rightarrow> False)"

definition agrees :: "real \<Rightarrow> npfloat \<Rightarrow> bool" where
  "agrees a x \<longleftrightarrow> finite_np x \<and> fin_val x = a"

definition trade_agrees :: "trade \<Rightarrow> trade_np \<Rightarrow> bool" where
  "trade_agrees t u \<longleftrightarrow>
     timestamp_np u = timestamp t \<and> symbol_np u = symbol t \<and> direction_np u = direction t \<and>
     agrees (trade_entry_price t) (trade_entry_price_np u) \<and>
     rel_option agrees (exit_price t) (exit_price_np u) \<and>
     rel_option agrees (profit t) (profit_np u) \<and>
     status_np u = status t"

definition state_agrees :: "state \<Rightarrow> state_np \<Rightarrow> bool" where
  "state_agrees s u \<longleftrightarrow>
     agrees (position s) (position_np u) \<and> agrees (portfolio s) (portfolio_np u) \<and>
     list_all2 trade_agrees (trades s) (trades_np u) \<and>
     agrees (entry_price s) (entry_price_np u) \<and>
     agrees (trailing_stop s) (trailing_stop_np u)"

lemmas np_defs = is_nan_def is_inf_def is_zero_def signed_zero_def signed_inf_def fin_result_def
  np_neg_def np_abs_def np_mul_def np_div_def np_add_def np_sub_def np_lt_def np_gt_def
  np_le_def np_ge_def np_eq_def np_ne_def py_min_def py_max_def

lemmas run_np_defs = backtest_strategy_np_def initial_state_np_def backtest_step_np_def
  stop_loss_np_def take_profit_np_def position_size_factor_np_def forced_closure_np_def
  close_last_np_def open_trade_np_def plain_bar_def Let_def

lemmas run_defs = backtest_strategy_def initial_state_def backtest_step_def stop_loss_def
  take_profit_def position_size_factor_def forced_closure_def close_last_def open_trade_def
  plain_bar_def Let_def

section \<open>Properties\<close>

subsection \<open>Shape of one step\<close>

lemma position_size_factor_bounds:
  "0.5 \<le> position_size_factor v" "position_size_factor v \<le> 1.5"
  by (simp_all add: position_size_factor_def)

lemma stop_loss_nonzero: "atr \<noteq> 0 \<Longrightarrow> stop_loss atr v \<noteq> 0"
  by (simp add: stop_loss_def)

lemma closed_profit_append:
  "closed_profit (ts @ [t]) =
     closed_profit ts + (if status t = Closed then (case profit t of Some p \<Rightarrow> p | None \<Rightarrow> 0) else 0)"
  by (simp add: closed_profit_def)

lemma closed_profit_close_last:
  assumes "ts \<noteq> []" "status (last ts) = Open"
  shows "closed_profit (close_last ts ep pr) = closed_profit ts + pr"
proof -
  have "closed_profit ts = closed_profit (butlast ts @ [last ts])"
    using assms(1) by simp
  also have "\<dots> = closed_profit (butlast ts)"
    using assms(2) by (simp only: closed_profit_append) simp
  finally show ?thesis
    by (simp add: close_last_def closed_profit_append)
qed

lemma step_open_inv:
  assumes "backtest_step symb ic r b s = Inr s'" "open_inv s"
  shows "open_inv s'"
  using assms
  by (auto simp: backtest_step_def open_inv_def Let_def close_last_def open_trade_def split: if_splits)

lemma step_conserved:
  assumes "backtest_step symb ic r b s = Inr s'" "open_inv s"
    "portfolio s = c + closed_profit (trades s)"
  shows "portfolio s' = c + closed_profit (trades s')"
  using assms
  by (auto simp: backtest_step_def open_inv_def Let_def closed_profit_close_last closed_profit_append open_trade_def split: if_splits)


lemma run_open_inv:
  "run_bars symb ic r bs s = Inr s' \<Longrightarrow> open_inv s \<Longrightarrow> open_inv s'"
proof (induction bs arbitrary: s)
  case Nil
  then show ?case by simp
next
  case (Cons b bs)
  then show ?case
    by (auto split: sum.splits dest: step_open_inv)
qed

lemma run_conserved:
  "run_bars symb ic r bs s = Inr s' \<Longrightarrow> open_inv s \<Longrightarrow>
   portfolio s = c + closed_profit (trades s) \<Longrightarrow>
   portfolio s' = c + closed_profit (trades s')"
proof (induction bs arbitrary: s)
  case Nil
  then show ?case by simp
next
  case (Cons b bs)
  from Cons.prems(1) obtain s1 where
    s1: "backtest_step symb ic r b s = Inr s1" and rest: "run_bars symb ic r bs s1 = Inr s'"
    by (auto split: sum.splits)
  show ?case
    using Cons.IH [OF rest step_open_inv [OF s1 Cons.prems(2)]
      step_conserved [OF s1 Cons.prems(2) Cons.prems(3)]] .
qed

lemma forced_closure_conserved:
  assumes "forced_closure data s = Inr s'" "open_inv s"
    "portfolio s = c + closed_profit (trades s)"
  shows "portfolio s' = c + closed_profit (trades s')"
  using assms
  by (auto simp: forced_closure_def open_inv_def Let_def closed_profit_close_last split: if_splits)

lemma initial_open_inv: "open_inv (initial_state ic)"
  by (simp add: open_inv_def initial_state_def)

lemma initial_conserved:
  "portfolio (initial_state ic) = ic + closed_profit (trades (initial_state ic))"
  by (simp add: initial_state_def closed_profit_def)

lemma set_close_last:
  "ts \<noteq> [] \<Longrightarrow> set (close_last ts ep pr) =
     set (butlast ts) \<union> {(last ts)\<lparr>exit_price := Some ep, profit := Some pr, status := Closed\<rparr>}"
  by (simp add: close_last_def)

lemma close_last_profit:
  assumes "ts \<noteq> []" "\<forall>t \<in> set ts. status t = Closed \<longrightarrow> profit t \<noteq> None"
  shows "\<forall>t \<in> set (close_last ts ep pr). status t = Closed \<longrightarrow> profit t \<noteq> None"
proof (intro ballI impI)
  fix t
  assume t: "t \<in> set (close_last ts ep pr)" and c: "status t = Closed"
  from t consider "t \<in> set (butlast ts)"
    | "t = (last ts)\<lparr>exit_price := Some ep, profit := Some pr, status := Closed\<rparr>"
    using set_close_last [OF assms(1)] by auto
  then show "profit t \<noteq> None"
  proof cases
    case 1
    then have "t \<in> set ts" by (rule in_set_butlastD)
    with assms(2) c show ?thesis by blast
  next
    case 2
    then show ?thesis by simp
  qed
qed

lemma step_disj:
  assumes "backtest_step symb ic r b s = Inr s'"
  shows "(trades s' = trades s \<and> position s' = position s \<and> portfolio s' = portfolio s) \<or>
         (position s = 0 \<and> portfolio s' = portfolio s \<and>
            (trades s' = trades s @ [open_trade b symb Long] \<or>
             trades s' = trades s @ [open_trade b symb Short])) \<or>
         (position s \<noteq> 0 \<and> position s' = 0 \<and> trades s \<noteq> [] \<and>
            trades s' = close_last (trades s) (Close b) (portfolio s' - portfolio s))"
  using assms
  by (simp add: backtest_step_def Let_def split: if_splits) auto

lemma step_cases:
  assumes "backtest_step symb ic r b s = Inr s'"
  obtains
    (keep) "trades s' = trades s" "position s' = position s" "portfolio s' = portfolio s"
  | (entry) d where "position s = 0" "trades s' = trades s @ [open_trade b symb d]"
      "portfolio s' = portfolio s"
  | (exit) pr where "position s \<noteq> 0" "position s' = 0" "trades s \<noteq> []"
      "trades s' = close_last (trades s) (Close b) pr" "portfolio s' = portfolio s + pr"
proof -
  from step_disj [OF assms] consider
    "trades s' = trades s \<and> position s' = position s \<and> portfolio s' = portfolio s"
    | "position s = 0 \<and> portfolio s' = portfolio s \<and>
            (trades s' = trades s @ [open_trade b symb Long] \<or>
             trades s' = trades s @ [open_trade b symb Short])"
    | "position s \<noteq> 0 \<and> position s' = 0 \<and> trades s \<noteq> [] \<and>
            trades s' = close_last (trades s) (Close b) (portfolio s' - portfolio s)"
    by blast
  then show thesis
  proof cases
    case 1
    then show ?thesis using keep by blast
  next
    case 2
    then show ?thesis using entry by blast
  next
    case 3
    then show ?thesis using exit [of "portfolio s' - portfolio s"] by simp
  qed
qed

lemma forced_closure_cases:
  assumes "forced_closure data s = Inr s'"
  obtains
    (flat) "position s = 0" "s' = s"
  | (forced) pr where "position s \<noteq> 0" "data \<noteq> []" "trades s \<noteq> []"
      "trades s' = close_last (trades s) (Close (last data)) pr" "portfolio s' = portfolio s + pr"
      "position s' = position s"
proof (cases "position s = 0")
  case True
  with assms have "s' = s" by (simp add: forced_closure_def)
  with True show ?thesis by (rule flat)
next
  case False
  with assms have ne: "data \<noteq> []" "trades s \<noteq> []"
    by (auto simp: forced_closure_def split: if_splits)
  define pr where "pr = (if position s > 0 then (Close (last data) - entry_price s) * position s
                     else (entry_price s - Close (last data)) * \<bar>position s\<bar>)"
  from assms False ne have
    "s' = s\<lparr>portfolio := portfolio s + pr, trades := close_last (trades s) (Close (last data)) pr\<rparr>"
    by (simp add: forced_closure_def Let_def pr_def)
  then have "trades s' = close_last (trades s) (Close (last data)) pr"
    "portfolio s' = portfolio s + pr" "position s' = position s"
    by simp_all
  with False ne show ?thesis by (rule forced)
qed

lemma step_profit_inv:
  assumes "backtest_step symb ic r b s = Inr s'" "profit_inv s"
  shows "profit_inv s'"
  using assms(1)
proof (cases rule: step_cases)
  case keep
  with assms(2) show ?thesis by (simp add: profit_inv_def)
next
  case (entry d)
  with assms(2) show ?thesis by (auto simp: profit_inv_def open_trade_def)
next
  case (exit pr)
  with assms(2) close_last_profit [of "trades s"] show ?thesis
    by (simp add: profit_inv_def)
qed

lemma run_profit_inv:
  "run_bars symb ic r bs s = Inr s' \<Longrightarrow> profit_inv s \<Longrightarrow> profit_inv s'"
proof (induction bs arbitrary: s)
  case Nil
  then show ?case by simp
next
  case (Cons b bs)
  then show ?case
    by (auto split: sum.splits dest: step_profit_inv)
qed

lemma forced_closure_profit_inv:
  assumes "forced_closure data s = Inr s'" "profit_inv s"
  shows "profit_inv s'"
  using assms(1)
proof (cases rule: forced_closure_cases)
  case flat
  with assms(2) show ?thesis by simp
next
  case (forced pr)
  with assms(2) close_last_profit [of "trades s"] show ?thesis
    by (simp add: profit_inv_def)
qed

subsection \<open>Conservation of the portfolio\<close>

lemma step_portfolio_change:
  assumes "backtest_step symb ic r b s = Inr s'" "portfolio s' \<noteq> portfolio s"
  shows "position s \<noteq> 0 \<and> position s' = 0 \<and> trades s \<noteq> [] \<and>
         trades s' = close_last (trades s) (Close b) (portfolio s' - portfolio s)"
  using step_disj [OF assms(1)] assms(2) by auto

lemma forced_closure_portfolio_change:
  assumes "forced_closure data s = Inr s'" "portfolio s' \<noteq> portfolio s"
  shows "position s \<noteq> 0 \<and> data \<noteq> [] \<and> trades s \<noteq> [] \<and>
         trades s' = close_last (trades s) (Close (last data)) (portfolio s' - portfolio s)"
  using assms(1)
proof (cases rule: forced_closure_cases)
  case flat
  with assms(2) show ?thesis by simp
next
  case (forced pr)
  then show ?thesis by simp
qed

text \<open>
  C1. Whenever \<open>backtest_strategy\<close> returns, the portfolio value it returns is
  \<open>initial_capital\<close> plus the sum of the profits of the trades with status Closed in the
  returned list, each of which carries a profit. The portfolio changes in two places only:
  an iteration that closes the open trade (the position was not zero and becomes zero, the
  last trade is closed with the amount added as its profit), and the forced closure after
  the loop (the last trade is closed at the close of the last bar with the amount added).
\<close>

theorem portfolio_conservation:
  "(backtest_strategy data symb ic r = Inr (trs, pf) \<longrightarrow>
      pf = ic + closed_profit trs \<and> (\<forall>t \<in> set trs. status t = Closed \<longrightarrow> profit t \<noteq> None)) \<and>
   (backtest_step symb ic r b s = Inr s' \<and> portfolio s' \<noteq> portfolio s \<longrightarrow>
      position s \<noteq> 0 \<and> position s' = 0 \<and> trades s \<noteq> [] \<and>
      trades s' = close_last (trades s) (Close b) (portfolio s' - portfolio s)) \<and>
   (forced_closure bs u = Inr u' \<and> portfolio u' \<noteq> portfolio u \<longrightarrow>
      position u \<noteq> 0 \<and> bs \<noteq> [] \<and> trades u \<noteq> [] \<and>
      trades u' = close_last (trades u) (Close (last bs)) (portfolio u' - portfolio u))"
proof (intro conjI impI)
  assume ret: "backtest_strategy data symb ic r = Inr (trs, pf)"
  then obtain s1 s2 where
    run: "run_bars symb ic r data (initial_state ic) = Inr s1" and
    fc: "forced_closure data s1 = Inr s2" and
    res: "trs = trades s2" "pf = portfolio s2"
    by (auto simp: backtest_strategy_def split: sum.splits)
  have o1: "open_inv s1"
    using run_open_inv [OF run initial_open_inv] .
  have c1: "portfolio s1 = ic + closed_profit (trades s1)"
    using run_conserved [OF run initial_open_inv initial_conserved] .
  show "pf = ic + closed_profit trs"
    using forced_closure_conserved [OF fc o1 c1] res by simp
  have "profit_inv (initial_state ic)"
    by (simp add: profit_inv_def initial_state_def)
  then have "profit_inv s2"
    using run_profit_inv [OF run] forced_closure_profit_inv [OF fc] by blast
  then show "\<forall>t \<in> set trs. status t = Closed \<longrightarrow> profit t \<noteq> None"
    using res by (simp add: profit_inv_def)
next
  assume "backtest_step symb ic r b s = Inr s' \<and> portfolio s' \<noteq> portfolio s"
  then have *: "position s \<noteq> 0 \<and> position s' = 0 \<and> trades s \<noteq> [] \<and>
      trades s' = close_last (trades s) (Close b) (portfolio s' - portfolio s)"
    using step_portfolio_change by blast
  from * show "position s \<noteq> 0" by simp
  from * show "position s' = 0" by simp
  from * show "trades s \<noteq> []" by simp
  from * show "trades s' = close_last (trades s) (Close b) (portfolio s' - portfolio s)" by simp
next
  assume "forced_closure bs u = Inr u' \<and> portfolio u' \<noteq> portfolio u"
  then have *: "position u \<noteq> 0 \<and> bs \<noteq> [] \<and> trades u \<noteq> [] \<and>
      trades u' = close_last (trades u) (Close (last bs)) (portfolio u' - portfolio u)"
    using forced_closure_portfolio_change by blast
  from * show "position u \<noteq> 0" by simp
  from * show "bs \<noteq> []" by simp
  from * show "trades u \<noteq> []" by simp
  from * show "trades u' = close_last (trades u) (Close (last bs)) (portfolio u' - portfolio u)"
    by simp
qed

theorem portfolio_conservation_witness:
  "backtest_strategy [plain_bar 0 100 2 1, plain_bar 1 108 2 0] ''X'' 10000 0.03 =
     Inr ([\<lparr>timestamp = 0, symbol = ''X'', direction = Long, trade_entry_price = 100,
             exit_price = Some 108, profit = Some (4800 / 7), status = Closed\<rparr>], 74800 / 7) \<and>
   (74800 / 7 :: real) =
     10000 + closed_profit [\<lparr>timestamp = 0, symbol = ''X'', direction = Long,
             trade_entry_price = 100, exit_price = Some 108, profit = Some (4800 / 7),
             status = Closed\<rparr>] \<and>
   backtest_step ''X'' 10000 0.03 (plain_bar 1 108 2 0) (scenario_open ''X'') =
     Inr (scenario_closed ''X'') \<and>
   portfolio (scenario_closed ''X'') \<noteq> portfolio (scenario_open ''X'') \<and>
   position (scenario_open ''X'') \<noteq> 0 \<and> position (scenario_closed ''X'') = 0 \<and>
   forced_closure [plain_bar 0 100 2 1, plain_bar 1 104 2 0] (scenario_open ''X'') =
     Inr ((scenario_open ''X'')
            \<lparr>portfolio := 10000 + 2400 / 7,
             trades := close_last (trades (scenario_open ''X'')) 104 (2400 / 7)\<rparr>) \<and>
   portfolio ((scenario_open ''X'')
            \<lparr>portfolio := 10000 + 2400 / 7,
             trades := close_last (trades (scenario_open ''X'')) 104 (2400 / 7)\<rparr>)
     \<noteq> portfolio (scenario_open ''X'')"
proof -
  let ?T = "\<lparr>timestamp = 0, symbol = ''X'', direction = Long, trade_entry_price = 100,
             exit_price = Some 108, profit = Some (4800 / 7 :: real), status = Closed\<rparr>"
  let ?U = "(scenario_open ''X'')
            \<lparr>portfolio := 10000 + 2400 / 7,
             trades := close_last (trades (scenario_open ''X'')) 104 (2400 / 7)\<rparr>"
  have h1: "backtest_strategy [plain_bar 0 100 2 1, plain_bar 1 108 2 0] ''X'' 10000 0.03 =
     Inr ([?T], 74800 / 7)"
    by (simp add: run_defs)
  have h2: "backtest_step ''X'' 10000 0.03 (plain_bar 1 108 2 0) (scenario_open ''X'') =
     Inr (scenario_closed ''X'')"
    by (simp add: run_defs scenario_open_def scenario_closed_def)
  have h3: "portfolio (scenario_closed ''X'') \<noteq> portfolio (scenario_open ''X'')"
    by (simp add: scenario_open_def scenario_closed_def)
  have h4: "forced_closure [plain_bar 0 100 2 1, plain_bar 1 104 2 0] (scenario_open ''X'') = Inr ?U"
    by (simp add: run_defs scenario_open_def)
  have h5: "portfolio ?U \<noteq> portfolio (scenario_open ''X'')"
    by (simp add: scenario_open_def)
  from portfolio_conservation [of "[plain_bar 0 100 2 1, plain_bar 1 108 2 0]" "''X''" 10000 "0.03"
      "[?T]" "74800 / 7" "plain_bar 1 108 2 0" "scenario_open ''X''" "scenario_closed ''X''"
      "[plain_bar 0 100 2 1, plain_bar 1 104 2 0]" "scenario_open ''X''" ?U]
    h1 h2 h3 h4 h5
  show ?thesis by simp
qed

text \<open>
  C3. Scenario A, two bars: bar 0 with close 100, ATR 2 and a Long signal, bar 1 with close
  108 and ATR 2 (whatever its signal), initial capital 10000 and risk 0.03. After bar 0 a
  Long position of size \<open>10000 * 0.03 * 1.0 / 3.5\<close> is open at entry price 100 with the
  trailing stop at 98. On bar 1 the trailing stop is raised to 105, the take-profit distance
  is 7 and the take-profit test \<open>108 \<ge> 100 + 7\<close> holds while the trailing-stop test
  \<open>108 \<le> 105\<close> does not. The run returns one Closed trade with profit
  \<open>(108 - 100) * size\<close>, which is 685.71 to two decimals, and the ending capital
  10685.71 to two decimals.
\<close>

theorem scenario_a:
  "run_bars symb 10000 0.03 [plain_bar 0 100 2 1] (initial_state 10000) =
     Inr (scenario_open symb) \<and>
   position (scenario_open symb) = 10000 * 0.03 * 1.0 / 3.5 \<and>
   entry_price (scenario_open symb) = 100 \<and>
   trailing_stop (scenario_open symb) = 98 \<and>
   run_bars symb 10000 0.03 [plain_bar 0 100 2 1, plain_bar 1 108 2 sg] (initial_state 10000) =
     Inr (scenario_closed symb) \<and>
   trailing_stop (scenario_closed symb) = 105 \<and>
   take_profit 2 (2 / 108) = 7 \<and> (108 :: real) \<ge> 100 + 7 \<and> \<not> (108 :: real) \<le> 105 \<and>
   backtest_strategy [plain_bar 0 100 2 1, plain_bar 1 108 2 sg] symb 10000 0.03 =
     Inr ([\<lparr>timestamp = 0, symbol = symb, direction = Long, trade_entry_price = 100,
             exit_price = Some 108, profit = Some ((108 - 100) * (10000 * 0.03 * 1.0 / 3.5)),
             status = Closed\<rparr>],
          10000 + (108 - 100) * (10000 * 0.03 * 1.0 / 3.5)) \<and>
   \<bar>(108 - 100) * (10000 * 0.03 * 1.0 / 3.5) - 685.71\<bar> < (0.005 :: real) \<and>
   \<bar>10000 + (108 - 100) * (10000 * 0.03 * 1.0 / 3.5) - 10685.71\<bar> < (0.005 :: real)"
  by (simp add: run_defs scenario_open_def scenario_closed_def)

subsection \<open>Signals\<close>

lemma loc_assign_nth:
  "i < length data \<Longrightarrow> length msk = length data \<Longrightarrow>
   loc_assign msk v data ! i = (if msk ! i then (data ! i)\<lparr>Signal := v\<rparr> else data ! i)"
  by (simp add: loc_assign_def)

lemma length_loc_assign:
  "length msk = length data \<Longrightarrow> length (loc_assign msk v data) = length data"
  by (simp add: loc_assign_def)

lemma generate_signals_nth:
  assumes "i < length data"
  shows "generate_signals data ! i =
     (data ! i)\<lparr>Signal := (if short_condition (data ! i) then - 1
                            else if long_condition (data ! i) then 1 else 0)\<rparr>"
  using assms
  by (simp add: generate_signals_def Let_def loc_assign_nth length_loc_assign
      long_condition_def short_condition_def)

text \<open>
  C4. For every row, the signal written by \<open>generate_signals\<close> is 1 (Long) exactly when the
  nine long conditions hold, -1 (Short) exactly when the nine short conditions hold, and 0
  (Flat) exactly when neither set holds; the two sets never hold together; nothing but the
  signal column changes. The two assignments are made one after the other, the Short one
  last: on a row selected by both masks the value left is -1.
\<close>

theorem generate_signals_spec:
  fixes data :: "bar list" and i :: nat and lm sm :: "bool list"
  defines "r \<equiv> data ! i"
  defines "sg \<equiv> Signal (generate_signals data ! i)"
  defines "long_all \<equiv>
     Lips r > Teeth r \<and> Teeth r > Jaw r \<and> Close r > Lips r \<and> ADX r > 30 \<and> CMO r > 40 \<and>
     Stoch_RSI r > 60 \<and> Volume_Change r > 0 \<and> Close r > EMA_50 r \<and> MACD r > MACD_signal r"
  defines "short_all \<equiv>
     Lips r < Teeth r \<and> Teeth r < Jaw r \<and> Close r < Lips r \<and> ADX r > 30 \<and> CMO r < - 40 \<and>
     Stoch_RSI r < 40 \<and> Volume_Change r < 0 \<and> Close r < EMA_50 r \<and> MACD r < MACD_signal r"
  assumes "i < length data"
  shows "length (generate_signals data) = length data \<and>
         (sg = 1 \<longleftrightarrow> long_all) \<and> (sg = - 1 \<longleftrightarrow> short_all) \<and>
         (sg = 0 \<longleftrightarrow> \<not> long_all \<and> \<not> short_all) \<and>
         \<not> (long_all \<and> short_all) \<and>
         generate_signals data ! i = r\<lparr>Signal := sg\<rparr> \<and>
         (length lm = length data \<and> length sm = length data \<and> lm ! i \<and> sm ! i \<longrightarrow>
            Signal (loc_assign sm (- 1) (loc_assign lm 1 data) ! i) = - 1)"
proof -
  have len: "length (generate_signals data) = length data"
    by (simp add: generate_signals_def Let_def length_loc_assign)
  have l: "long_all \<longleftrightarrow> long_condition r"
    by (simp add: long_all_def long_condition_def)
  have s: "short_all \<longleftrightarrow> short_condition r"
    by (simp add: short_all_def short_condition_def)
  have excl: "\<not> (long_all \<and> short_all)"
    by (auto simp: long_all_def short_all_def)
  have nth: "generate_signals data ! i =
      r\<lparr>Signal := (if short_all then - 1 else if long_all then 1 else 0)\<rparr>"
    using generate_signals_nth [OF assms(5)] by (simp add: r_def l s)
  then have sg: "sg = (if short_all then - 1 else if long_all then 1 else 0)"
    by (simp add: sg_def)
  have last: "length lm = length data \<and> length sm = length data \<and> lm ! i \<and> sm ! i \<longrightarrow>
            Signal (loc_assign sm (- 1) (loc_assign lm 1 data) ! i) = - 1"
    using assms(5) by (simp add: loc_assign_nth length_loc_assign)
  from len sg excl nth last show ?thesis
    by auto
qed

theorem generate_signals_spec_witness:
  "Signal (generate_signals [long_bar] ! 0) = 1 \<and>
   generate_signals [long_bar] ! 0 = long_bar\<lparr>Signal := 1\<rparr> \<and>
   Signal (loc_assign [True] (- 1) (loc_assign [True] 1 [long_bar]) ! 0) = - 1"
proof -
  have h: "(0 :: nat) < length [long_bar]" by simp
  have g: "Signal (generate_signals [long_bar] ! 0) = 1"
    using generate_signals_spec [OF h, of "[True]" "[True]"] by (simp add: long_bar_def)
  have e: "generate_signals [long_bar] ! 0 =
      long_bar\<lparr>Signal := Signal (generate_signals [long_bar] ! 0)\<rparr>"
    using generate_signals_spec [OF h, of "[True]" "[True]"] by simp
  have w: "Signal (loc_assign [True] (- 1) (loc_assign [True] 1 [long_bar]) ! 0) = - 1"
    using generate_signals_spec [OF h, of "[True]" "[True]"] by simp
  from g e [unfolded g] w show ?thesis
    by simp
qed

subsection \<open>Entries\<close>

lemma step_entry_long:
  assumes "Signal b = 1" "position s = 0" "Close b \<noteq> 0" "ATR b \<noteq> 0"
  shows "backtest_step symb ic r b s =
     Inr (s\<lparr>position := (ic * r * position_size_factor (ATR b / Close b))
                          / stop_loss (ATR b) (ATR b / Close b),
            entry_price := Close b,
            trailing_stop := Close b - ATR b,
            trades := trades s @ [open_trade b symb Long]\<rparr>)"
  using assms by (simp add: backtest_step_def Let_def stop_loss_nonzero)

lemma step_entry_short:
  assumes "Signal b = - 1" "position s = 0" "Close b \<noteq> 0" "ATR b \<noteq> 0"
  shows "backtest_step symb ic r b s =
     Inr (s\<lparr>position := - (ic * r * position_size_factor (ATR b / Close b))
                          / stop_loss (ATR b) (ATR b / Close b),
            entry_price := Close b,
            trailing_stop := Close b + ATR b,
            trades := trades s @ [open_trade b symb Short]\<rparr>)"
  using assms by (simp add: backtest_step_def Let_def stop_loss_nonzero)

lemma position_size_factor_clamp:
  "position_size_factor v = clamp (0.02 / v) 0.5 1.5"
  by (simp add: position_size_factor_def clamp_def)

lemma stop_loss_pos: "0 < atr \<Longrightarrow> 0 < stop_loss atr v"
  by (simp add: stop_loss_def)

text \<open>
  C5, as the code has it. On a bar with a Long signal while the position is zero (close and
  ATR not zero), \<open>position_size_factor\<close> is \<open>clamp (0.02 / volatility_factor) 0.5 1.5\<close>,
  so lies in [0.5, 1.5]; the position becomes
  \<open>(initial_capital * risk_per_trade * position_size_factor) / stop_loss\<close>, with the
  initial capital and not the running portfolio value; the entry price is the close of the
  bar and the trailing stop is the entry price minus the ATR; a Long trade with status Open
  is appended. A Short signal mirrors this: the position is the negated quotient and the
  trailing stop is the entry price plus the ATR. With \<open>initial_capital * risk_per_trade\<close>
  and the ATR positive the quotient is positive, so the Short size is negative.
\<close>

theorem entry_sizing:
  fixes b :: bar and s :: state and ic r :: real
  defines "vf \<equiv> ATR b / Close b"
  defines "psf \<equiv> position_size_factor vf"
  defines "qty \<equiv> (ic * r * psf) / stop_loss (ATR b) vf"
  assumes "position s = 0" "Close b \<noteq> 0" "ATR b \<noteq> 0"
  shows "psf = clamp (0.02 / vf) 0.5 1.5 \<and> 0.5 \<le> psf \<and> psf \<le> 1.5 \<and>
         (Signal b = 1 \<longrightarrow>
            backtest_step symb ic r b s =
              Inr (s\<lparr>position := qty, entry_price := Close b, trailing_stop := Close b - ATR b,
                     trades := trades s @
                       [\<lparr>timestamp = index b, symbol = symb, direction = Long,
                         trade_entry_price = Close b, exit_price = None, profit = None,
                         status = Open\<rparr>]\<rparr>)) \<and>
         (Signal b = - 1 \<longrightarrow>
            backtest_step symb ic r b s =
              Inr (s\<lparr>position := - qty, entry_price := Close b, trailing_stop := Close b + ATR b,
                     trades := trades s @
                       [\<lparr>timestamp = index b, symbol = symb, direction = Short,
                         trade_entry_price = Close b, exit_price = None, profit = None,
                         status = Open\<rparr>]\<rparr>)) \<and>
         (0 < ic * r \<and> 0 < ATR b \<longrightarrow> 0 < qty)"
proof -
  have c: "psf = clamp (0.02 / vf) 0.5 1.5"
    by (simp add: psf_def position_size_factor_clamp)
  have lo: "0.5 \<le> psf" and hi: "psf \<le> 1.5"
    using position_size_factor_bounds [of vf] by (simp_all add: psf_def)
  have l: "Signal b = 1 \<longrightarrow>
            backtest_step symb ic r b s =
              Inr (s\<lparr>position := qty, entry_price := Close b, trailing_stop := Close b - ATR b,
                     trades := trades s @
                       [\<lparr>timestamp = index b, symbol = symb, direction = Long,
                         trade_entry_price = Close b, exit_price = None, profit = None,
                         status = Open\<rparr>]\<rparr>)"
    using step_entry_long [of b s symb ic r] assms(4-6)
    by (simp add: qty_def psf_def vf_def open_trade_def)
  have sh: "Signal b = - 1 \<longrightarrow>
            backtest_step symb ic r b s =
              Inr (s\<lparr>position := - qty, entry_price := Close b, trailing_stop := Close b + ATR b,
                     trades := trades s @
                       [\<lparr>timestamp = index b, symbol = symb, direction = Short,
                         trade_entry_price = Close b, exit_price = None, profit = None,
                         status = Open\<rparr>]\<rparr>)"
    using step_entry_short [of b s symb ic r] assms(4-6)
    by (simp add: qty_def psf_def vf_def open_trade_def)
  have pos: "0 < ic * r \<and> 0 < ATR b \<longrightarrow> 0 < qty"
  proof
    assume a: "0 < ic * r \<and> 0 < ATR b"
    from lo have "0 < psf" by simp
    with a have "0 < ic * r * psf" by simp
    moreover from a have "0 < stop_loss (ATR b) vf" by (simp add: stop_loss_pos)
    ultimately show "0 < qty" by (simp add: qty_def)
  qed
  from c lo hi l sh pos show ?thesis by blast
qed

theorem entry_sizing_witness:
  "position_size_factor (2 / 100) = clamp (0.02 / (2 / 100)) 0.5 1.5 \<and>
   backtest_step ''X'' 10000 0.03 (plain_bar 0 100 2 1) (initial_state 10000) =
     Inr ((initial_state 10000)
           \<lparr>position := (10000 * 0.03 * position_size_factor (2 / 100)) / stop_loss 2 (2 / 100),
            entry_price := 100, trailing_stop := 100 - 2,
            trades := [\<lparr>timestamp = 0, symbol = ''X'', direction = Long,
                         trade_entry_price = 100, exit_price = None, profit = None,
                         status = Open\<rparr>]\<rparr>) \<and>
   backtest_step ''X'' 10000 0.03 (plain_bar 0 100 2 (- 1)) (initial_state 10000) =
     Inr ((initial_state 10000)
           \<lparr>position := - ((10000 * 0.03 * position_size_factor (2 / 100)) / stop_loss 2 (2 / 100)),
            entry_price := 100, trailing_stop := 100 + 2,
            trades := [\<lparr>timestamp = 0, symbol = ''X'', direction = Short,
                         trade_entry_price = 100, exit_price = None, profit = None,
                         status = Open\<rparr>]\<rparr>) \<and>
   0 < (10000 * 0.03 * position_size_factor (2 / 100)) / stop_loss 2 (2 / 100)"
proof -
  have h1: "position (initial_state 10000) = 0" by (simp add: initial_state_def)
  have l: "Close (plain_bar 0 100 2 1) \<noteq> 0" "ATR (plain_bar 0 100 2 1) \<noteq> 0"
    "Signal (plain_bar 0 100 2 1) = 1"
    by (simp_all add: plain_bar_def)
  have sh: "Close (plain_bar 0 100 2 (- 1)) \<noteq> 0" "ATR (plain_bar 0 100 2 (- 1)) \<noteq> 0"
    "Signal (plain_bar 0 100 2 (- 1)) = - 1"
    by (simp_all add: plain_bar_def)
  have pos: "(0 :: real) < 10000 * 0.03 \<and> 0 < ATR (plain_bar 0 100 2 1)"
    by (simp add: plain_bar_def)
  have a: "position_size_factor (2 / 100) = clamp (0.02 / (2 / 100)) 0.5 1.5 \<and>
     backtest_step ''X'' 10000 0.03 (plain_bar 0 100 2 1) (initial_state 10000) =
     Inr ((initial_state 10000)
           \<lparr>position := (10000 * 0.03 * position_size_factor (2 / 100)) / stop_loss 2 (2 / 100),
            entry_price := 100, trailing_stop := 100 - 2,
            trades := [\<lparr>timestamp = 0, symbol = ''X'', direction = Long,
                         trade_entry_price = 100, exit_price = None, profit = None,
                         status = Open\<rparr>]\<rparr>) \<and>
     0 < (10000 * 0.03 * position_size_factor (2 / 100)) / stop_loss 2 (2 / 100)"
    using entry_sizing [OF h1 l(1) l(2), of "''X''" 10000 "0.03"] l(3) pos
    by (simp add: plain_bar_def initial_state_def position_size_factor_def clamp_def
        stop_loss_def)
  have b: "backtest_step ''X'' 10000 0.03 (plain_bar 0 100 2 (- 1)) (initial_state 10000) =
     Inr ((initial_state 10000)
           \<lparr>position := - ((10000 * 0.03 * position_size_factor (2 / 100)) / stop_loss 2 (2 / 100)),
            entry_price := 100, trailing_stop := 100 + 2,
            trades := [\<lparr>timestamp = 0, symbol = ''X'', direction = Short,
                         trade_entry_price = 100, exit_price = None, profit = None,
                         status = Open\<rparr>]\<rparr>)"
    using entry_sizing [OF h1 sh(1) sh(2), of "''X''" 10000 "0.03"] sh(3)
    by (simp add: plain_bar_def initial_state_def position_size_factor_def clamp_def
        stop_loss_def)
  from a b show ?thesis by blast
qed

text \<open>
  The claim as written sizes from the running capital. After Scenario A the portfolio is
  \<open>74800 / 7\<close>, and a Long entry on a third bar (close 100, ATR 2) takes the size
  \<open>600 / 7\<close>, computed from the initial capital 10000, which is not
  \<open>(portfolio * 0.03 * position_size_factor) / stop_loss\<close>.
\<close>

theorem entry_sizing_counterexample:
  "run_bars ''X'' 10000 0.03 [plain_bar 0 100 2 1, plain_bar 1 108 2 0] (initial_state 10000) =
     Inr (scenario_closed ''X'') \<and>
   position (scenario_closed ''X'') = 0 \<and> Signal (plain_bar 2 100 2 1) = 1 \<and>
   backtest_step ''X'' 10000 0.03 (plain_bar 2 100 2 1) (scenario_closed ''X'') =
     Inr ((scenario_closed ''X'')
           \<lparr>position := 600 / 7, entry_price := 100, trailing_stop := 98,
            trades := trades (scenario_closed ''X'') @
                       [\<lparr>timestamp = 2, symbol = ''X'', direction = Long,
                         trade_entry_price = 100, exit_price = None, profit = None,
                         status = Open\<rparr>]\<rparr>) \<and>
   (600 / 7 :: real) \<noteq>
     (portfolio (scenario_closed ''X'') * 0.03 * position_size_factor (2 / 100))
       / stop_loss 2 (2 / 100)"
  by (simp add: run_defs scenario_closed_def)

subsection \<open>Regimes, exits and the trailing stop\<close>

text \<open>What an iteration does to the trailing stop, by the sign of the position.\<close>

lemma step_trailing_long:
  assumes "backtest_step symb ic r b s = Inr s'" "position s > 0"
  shows "trailing_stop s' =
           (if Close b > entry_price s + ATR b
            then max (trailing_stop s) (Close b - 1.5 * ATR b) else trailing_stop s)"
  using assms
  by (simp add: backtest_step_def Let_def mult.commute split: if_splits) auto

lemma step_trailing_short:
  assumes "backtest_step symb ic r b s = Inr s'" "position s < 0"
  shows "trailing_stop s' =
           (if Close b < entry_price s - ATR b
            then min (trailing_stop s) (Close b + 1.5 * ATR b) else trailing_stop s)"
  using assms
  by (simp add: backtest_step_def Let_def mult.commute split: if_splits) auto

lemma step_exit_long:
  assumes "backtest_step symb ic r b s = Inr s'" "position s > 0"
  shows "position s' = 0 \<longleftrightarrow>
           Close b \<ge> entry_price s + take_profit (ATR b) (ATR b / Close b) \<or>
           Close b \<le> trailing_stop s'"
  using assms
  by (simp add: backtest_step_def Let_def mult.commute split: if_splits) auto

lemma step_exit_short:
  assumes "backtest_step symb ic r b s = Inr s'" "position s < 0"
  shows "position s' = 0 \<longleftrightarrow>
           Close b \<le> entry_price s - take_profit (ATR b) (ATR b / Close b) \<or>
           Close b \<ge> trailing_stop s'"
  using assms
  by (simp add: backtest_step_def Let_def mult.commute split: if_splits) auto

text \<open>
  C6. The two distances depend on the ATR and on the volatility factor alone, so they are
  the same in every position state: for a volatility factor below 0.01 the stop-loss
  distance is \<open>ATR * 2.0\<close> and the take-profit distance \<open>ATR * 4.0\<close>; above 0.02
  they are \<open>ATR * 1.5\<close> and \<open>ATR * 3.0\<close>; from 0.01 to 0.02, both included, they
  are \<open>ATR * 1.75\<close> and \<open>ATR * 3.5\<close>. On a bar processed with a Long position the
  position is closed exactly when the close reaches the entry price plus the take-profit
  distance computed from the ATR and the volatility factor \<open>ATR / close\<close> of this bar, or
  is at or below the trailing stop; with a Short position, exactly when the close is at or
  below the entry price minus that distance, or at or above the trailing stop.
\<close>

theorem regime_and_exit:
  fixes atr vf :: real and b :: bar and s s' :: state
  shows "(vf < 0.01 \<longrightarrow> stop_loss atr vf = atr * 2.0 \<and> take_profit atr vf = atr * 4.0) \<and>
         (vf > 0.02 \<longrightarrow> stop_loss atr vf = atr * 1.5 \<and> take_profit atr vf = atr * 3.0) \<and>
         (0.01 \<le> vf \<and> vf \<le> 0.02 \<longrightarrow>
            stop_loss atr vf = atr * 1.75 \<and> take_profit atr vf = atr * 3.5) \<and>
         (backtest_step symb ic r b s = Inr s' \<and> position s > 0 \<longrightarrow>
            (position s' = 0 \<longleftrightarrow>
               Close b \<ge> entry_price s + take_profit (ATR b) (ATR b / Close b) \<or>
               Close b \<le> trailing_stop s')) \<and>
         (backtest_step symb ic r b s = Inr s' \<and> position s < 0 \<longrightarrow>
            (position s' = 0 \<longleftrightarrow>
               Close b \<le> entry_price s - take_profit (ATR b) (ATR b / Close b) \<or>
               Close b \<ge> trailing_stop s'))"
proof -
  have lo: "vf < 0.01 \<longrightarrow> stop_loss atr vf = atr * 2.0 \<and> take_profit atr vf = atr * 4.0"
    by (simp add: stop_loss_def take_profit_def)
  have hi: "vf > 0.02 \<longrightarrow> stop_loss atr vf = atr * 1.5 \<and> take_profit atr vf = atr * 3.0"
    by (simp add: stop_loss_def take_profit_def)
  have mid: "0.01 \<le> vf \<and> vf \<le> 0.02 \<longrightarrow>
            stop_loss atr vf = atr * 1.75 \<and> take_profit atr vf = atr * 3.5"
    by (simp add: stop_loss_def take_profit_def)
  have l: "backtest_step symb ic r b s = Inr s' \<and> position s > 0 \<longrightarrow>
            (position s' = 0 \<longleftrightarrow>
               Close b \<ge> entry_price s + take_profit (ATR b) (ATR b / Close b) \<or>
               Close b \<le> trailing_stop s')"
    using step_exit_long [of symb ic r b s s'] by simp
  have sh: "backtest_step symb ic r b s = Inr s' \<and> position s < 0 \<longrightarrow>
            (position s' = 0 \<longleftrightarrow>
               Close b \<le> entry_price s - take_profit (ATR b) (ATR b / Close b) \<or>
               Close b \<ge> trailing_stop s')"
    using step_exit_short [of symb ic r b s s'] by simp
  from lo hi mid l sh show ?thesis by blast
qed

text \<open>
  The witness enters at ATR 2 (take-profit distance 7 on the entry bar) and meets a bar with
  close 104 and ATR 1: the distance of that bar is 4, the close reaches 100 + 4 and the
  position is closed, although 104 is below 100 + 7 and above the trailing stop 102.5.
\<close>

theorem regime_and_exit_witness:
  "stop_loss 1 (1 / 104) = 1 * 2.0 \<and> take_profit 1 (1 / 104) = 1 * 4.0 \<and>
   stop_loss 3 (3 / 100) = 3 * 1.5 \<and> take_profit 3 (3 / 100) = 3 * 3.0 \<and>
   stop_loss 2 (2 / 100) = 2 * 1.75 \<and> take_profit 2 (2 / 100) = 2 * 3.5 \<and>
   stop_loss 1 (1 / 100) = 1 * 1.75 \<and> take_profit 1 (1 / 100) = 1 * 3.5 \<and>
   backtest_step ''X'' 10000 0.03 (plain_bar 1 104 1 0) (scenario_open ''X'') =
     Inr (tp_exit_state ''X'') \<and>
   position (tp_exit_state ''X'') = 0 \<and>
   (104 :: real) \<ge> entry_price (scenario_open ''X'') + take_profit 1 (1 / 104) \<and>
   \<not> (104 :: real) \<ge> entry_price (scenario_open ''X'') + take_profit 2 (2 / 100) \<and>
   \<not> (104 :: real) \<le> trailing_stop (tp_exit_state ''X'') \<and>
   backtest_step ''X'' 10000 0.03 (plain_bar 1 96 1 0) (short_open ''X'') =
     Inr (short_exit_state ''X'') \<and>
   position (short_exit_state ''X'') = 0 \<and>
   (96 :: real) \<le> entry_price (short_open ''X'') - take_profit 1 (1 / 96)"
proof -
  have l: "backtest_step ''X'' 10000 0.03 (plain_bar 1 104 1 0) (scenario_open ''X'') =
     Inr (tp_exit_state ''X'') \<and> position (scenario_open ''X'') > 0"
    by (simp add: run_defs scenario_open_def tp_exit_state_def)
  have sh: "backtest_step ''X'' 10000 0.03 (plain_bar 1 96 1 0) (short_open ''X'') =
     Inr (short_exit_state ''X'') \<and> position (short_open ''X'') < 0"
    by (simp add: run_defs short_open_def short_exit_state_def)
  have a: "stop_loss 1 (1 / 104) = 1 * 2.0 \<and> take_profit 1 (1 / 104) = 1 * 4.0"
    using regime_and_exit [of "1 / 104" 1] by simp
  have b: "stop_loss 3 (3 / 100) = 3 * 1.5 \<and> take_profit 3 (3 / 100) = 3 * 3.0"
    using regime_and_exit [of "3 / 100" 3] by simp
  have c: "stop_loss 2 (2 / 100) = 2 * 1.75 \<and> take_profit 2 (2 / 100) = 2 * 3.5"
    using regime_and_exit [of "2 / 100" 2] by simp
  have d: "stop_loss 1 (1 / 100) = 1 * 1.75 \<and> take_profit 1 (1 / 100) = 1 * 3.5"
    using regime_and_exit [of "1 / 100" 1] by simp
  have e: "position (tp_exit_state ''X'') = 0 \<longleftrightarrow>
      104 \<ge> entry_price (scenario_open ''X'') + take_profit 1 (1 / 104) \<or>
      104 \<le> trailing_stop (tp_exit_state ''X'')"
    using regime_and_exit [of _ _ "''X''" 10000 "0.03" "plain_bar 1 104 1 0"
        "scenario_open ''X''" "tp_exit_state ''X''"] l
    by (simp add: plain_bar_def)
  have f: "position (short_exit_state ''X'') = 0 \<longleftrightarrow>
      96 \<le> entry_price (short_open ''X'') - take_profit 1 (1 / 96) \<or>
      96 \<ge> trailing_stop (short_exit_state ''X'')"
    using regime_and_exit [of _ _ "''X''" 10000 "0.03" "plain_bar 1 96 1 0"
        "short_open ''X''" "short_exit_state ''X''"] sh
    by (simp add: plain_bar_def)
  have g: "position (tp_exit_state ''X'') = 0"
    "(104 :: real) \<ge> entry_price (scenario_open ''X'') + take_profit 1 (1 / 104)"
    "\<not> (104 :: real) \<ge> entry_price (scenario_open ''X'') + take_profit 2 (2 / 100)"
    "\<not> (104 :: real) \<le> trailing_stop (tp_exit_state ''X'')"
    "position (short_exit_state ''X'') = 0"
    "(96 :: real) \<le> entry_price (short_open ''X'') - take_profit 1 (1 / 96)"
    by (simp_all add: tp_exit_state_def scenario_open_def take_profit_def short_exit_state_def
        short_open_def)
  from a b c d e f g l sh show ?thesis by blast
qed

lemma length_close_last: "ts \<noteq> [] \<Longrightarrow> length (close_last ts ep pr) = length ts"
  by (simp add: close_last_def)

lemma step_length_mono:
  assumes "backtest_step symb ic r b s = Inr s'"
  shows "length (trades s) \<le> length (trades s')"
  using assms
  by (cases rule: step_cases) (simp_all add: length_close_last)

lemma run_length_mono:
  "run_bars symb ic r bs s = Inr s' \<Longrightarrow> length (trades s) \<le> length (trades s')"
proof (induction bs arbitrary: s)
  case Nil
  then show ?case by simp
next
  case (Cons b bs)
  from Cons.prems obtain s1 where
    s1: "backtest_step symb ic r b s = Inr s1" and rest: "run_bars symb ic r bs s1 = Inr s'"
    by (auto split: sum.splits)
  from step_length_mono [OF s1] Cons.IH [OF rest] show ?case by simp
qed

text \<open>From a zero position, a later position that is not zero means a trade was appended.\<close>

lemma run_from_flat:
  "run_bars symb ic r bs s = Inr s' \<Longrightarrow> position s = 0 \<Longrightarrow> position s' \<noteq> 0 \<Longrightarrow>
   length (trades s) < length (trades s')"
proof (induction bs arbitrary: s)
  case Nil
  then show ?case by simp
next
  case (Cons b bs)
  from Cons.prems(1) obtain s1 where
    s1: "backtest_step symb ic r b s = Inr s1" and rest: "run_bars symb ic r bs s1 = Inr s'"
    by (auto split: sum.splits)
  from s1 show ?case
  proof (cases rule: step_cases)
    case keep
    with Cons.prems(2) have "position s1 = 0" by simp
    from Cons.IH [OF rest this Cons.prems(3)] keep show ?thesis by simp
  next
    case (entry d)
    with run_length_mono [OF rest] show ?thesis by simp
  next
    case (exit pr)
    with Cons.prems(2) show ?thesis by simp
  qed
qed

lemma step_trailing_long_mono:
  assumes "backtest_step symb ic r b s = Inr s'" "position s > 0"
  shows "trailing_stop s \<le> trailing_stop s'"
  using step_trailing_long [OF assms] by simp

lemma step_trailing_short_mono:
  assumes "backtest_step symb ic r b s = Inr s'" "position s < 0"
  shows "trailing_stop s' \<le> trailing_stop s"
  using step_trailing_short [OF assms] by simp

text \<open>
  Over several bars: as long as no trade has been appended and the position is not zero at
  the end, the position never was zero in between, so the trade open at the start is still
  the open one.
\<close>

lemma run_trailing_long_mono:
  "run_bars symb ic r bs s = Inr s' \<Longrightarrow> position s > 0 \<Longrightarrow> position s' \<noteq> 0 \<Longrightarrow>
   length (trades s') = length (trades s) \<Longrightarrow>
   trailing_stop s \<le> trailing_stop s' \<and> position s' = position s \<and> entry_price s' = entry_price s"
proof (induction bs arbitrary: s)
  case Nil
  then show ?case by simp
next
  case (Cons b bs)
  from Cons.prems(1) obtain s1 where
    s1: "backtest_step symb ic r b s = Inr s1" and rest: "run_bars symb ic r bs s1 = Inr s'"
    by (auto split: sum.splits)
  have len: "length (trades s1) = length (trades s)"
    using step_length_mono [OF s1] run_length_mono [OF rest] Cons.prems(4) by simp
  have ne: "position s1 \<noteq> 0"
  proof
    assume "position s1 = 0"
    from run_from_flat [OF rest this Cons.prems(3)] len Cons.prems(4) show False by simp
  qed
  have same: "position s1 = position s \<and> entry_price s1 = entry_price s"
    using s1 Cons.prems(2) ne
    by (simp add: backtest_step_def Let_def split: if_splits) auto
  have "trailing_stop s \<le> trailing_stop s1"
    using step_trailing_long_mono [OF s1 Cons.prems(2)] .
  moreover have "trailing_stop s1 \<le> trailing_stop s' \<and> position s' = position s1 \<and>
      entry_price s' = entry_price s1"
    using Cons.IH [OF rest _ Cons.prems(3)] same Cons.prems(2) len Cons.prems(4) by simp
  ultimately show ?case using same by simp
qed

lemma run_trailing_short_mono:
  "run_bars symb ic r bs s = Inr s' \<Longrightarrow> position s < 0 \<Longrightarrow> position s' \<noteq> 0 \<Longrightarrow>
   length (trades s') = length (trades s) \<Longrightarrow>
   trailing_stop s' \<le> trailing_stop s \<and> position s' = position s \<and> entry_price s' = entry_price s"
proof (induction bs arbitrary: s)
  case Nil
  then show ?case by simp
next
  case (Cons b bs)
  from Cons.prems(1) obtain s1 where
    s1: "backtest_step symb ic r b s = Inr s1" and rest: "run_bars symb ic r bs s1 = Inr s'"
    by (auto split: sum.splits)
  have len: "length (trades s1) = length (trades s)"
    using step_length_mono [OF s1] run_length_mono [OF rest] Cons.prems(4) by simp
  have ne: "position s1 \<noteq> 0"
  proof
    assume "position s1 = 0"
    from run_from_flat [OF rest this Cons.prems(3)] len Cons.prems(4) show False by simp
  qed
  have same: "position s1 = position s \<and> entry_price s1 = entry_price s"
    using s1 Cons.prems(2) ne
    by (simp add: backtest_step_def Let_def split: if_splits) auto
  have "trailing_stop s1 \<le> trailing_stop s"
    using step_trailing_short_mono [OF s1 Cons.prems(2)] .
  moreover have "trailing_stop s' \<le> trailing_stop s1 \<and> position s' = position s1 \<and>
      entry_price s' = entry_price s1"
    using Cons.IH [OF rest _ Cons.prems(3)] same Cons.prems(2) len Cons.prems(4) by simp
  ultimately show ?case using same by simp
qed

text \<open>
  C7. On every bar processed while the position is Long (positive), the trailing stop after
  the bar is \<open>max trailing_stop (close - 1.5 * ATR)\<close> when
  \<open>close > entry_price + ATR\<close> and is unchanged otherwise, so it never decreases; over
  any stretch of bars during which the same Long trade stays open it is non-decreasing. For
  a Short (negative) position the mirror holds with \<open>min\<close>, \<open>close + 1.5 * ATR\<close> and
  \<open>close < entry_price - ATR\<close>: it never increases.
\<close>

theorem trailing_stop_monotone:
  "(backtest_step symb ic r b s = Inr s' \<and> position s > 0 \<longrightarrow>
      trailing_stop s \<le> trailing_stop s' \<and>
      trailing_stop s' =
        (if Close b > entry_price s + ATR b
         then max (trailing_stop s) (Close b - 1.5 * ATR b) else trailing_stop s)) \<and>
   (backtest_step symb ic r b s = Inr s' \<and> position s < 0 \<longrightarrow>
      trailing_stop s' \<le> trailing_stop s \<and>
      trailing_stop s' =
        (if Close b < entry_price s - ATR b
         then min (trailing_stop s) (Close b + 1.5 * ATR b) else trailing_stop s)) \<and>
   (run_bars symb ic r bs u = Inr u' \<and> position u > 0 \<and> position u' \<noteq> 0 \<and>
      length (trades u') = length (trades u) \<longrightarrow>
      position u' = position u \<and> trailing_stop u \<le> trailing_stop u') \<and>
   (run_bars symb ic r bs u = Inr u' \<and> position u < 0 \<and> position u' \<noteq> 0 \<and>
      length (trades u') = length (trades u) \<longrightarrow>
      position u' = position u \<and> trailing_stop u' \<le> trailing_stop u)"
proof (intro conjI impI)
  assume a: "backtest_step symb ic r b s = Inr s' \<and> position s > 0"
  then show "trailing_stop s \<le> trailing_stop s'"
    using step_trailing_long_mono by blast
  from a show "trailing_stop s' =
        (if Close b > entry_price s + ATR b
         then max (trailing_stop s) (Close b - 1.5 * ATR b) else trailing_stop s)"
    using step_trailing_long by blast
next
  assume a: "backtest_step symb ic r b s = Inr s' \<and> position s < 0"
  then show "trailing_stop s' \<le> trailing_stop s"
    using step_trailing_short_mono by blast
  from a show "trailing_stop s' =
        (if Close b < entry_price s - ATR b
         then min (trailing_stop s) (Close b + 1.5 * ATR b) else trailing_stop s)"
    using step_trailing_short by blast
next
  assume a: "run_bars symb ic r bs u = Inr u' \<and> position u > 0 \<and> position u' \<noteq> 0 \<and>
      length (trades u') = length (trades u)"
  then have "trailing_stop u \<le> trailing_stop u' \<and> position u' = position u \<and>
      entry_price u' = entry_price u"
    using run_trailing_long_mono by blast
  then show "position u' = position u" "trailing_stop u \<le> trailing_stop u'" by simp_all
next
  assume a: "run_bars symb ic r bs u = Inr u' \<and> position u < 0 \<and> position u' \<noteq> 0 \<and>
      length (trades u') = length (trades u)"
  then have "trailing_stop u' \<le> trailing_stop u \<and> position u' = position u \<and>
      entry_price u' = entry_price u"
    using run_trailing_short_mono by blast
  then show "position u' = position u" "trailing_stop u' \<le> trailing_stop u" by simp_all
qed

theorem trailing_stop_monotone_witness:
  "backtest_step ''X'' 10000 0.03 (plain_bar 1 103 2 0) (scenario_open ''X'') =
     Inr ((scenario_open ''X'')\<lparr>trailing_stop := 100\<rparr>) \<and>
   trailing_stop (scenario_open ''X'') \<le> trailing_stop ((scenario_open ''X'')\<lparr>trailing_stop := 100\<rparr>) \<and>
   backtest_step ''X'' 10000 0.03 (plain_bar 1 97 2 0) (short_open ''X'') =
     Inr ((short_open ''X'')\<lparr>trailing_stop := 100\<rparr>) \<and>
   trailing_stop ((short_open ''X'')\<lparr>trailing_stop := 100\<rparr>) \<le> trailing_stop (short_open ''X'') \<and>
   run_bars ''X'' 10000 0.03 [plain_bar 1 103 2 0, plain_bar 2 104 2 0] (scenario_open ''X'') =
     Inr ((scenario_open ''X'')\<lparr>trailing_stop := 101\<rparr>) \<and>
   trailing_stop (scenario_open ''X'') \<le> trailing_stop ((scenario_open ''X'')\<lparr>trailing_stop := 101\<rparr>) \<and>
   run_bars ''X'' 10000 0.03 [plain_bar 1 97 2 0, plain_bar 2 96 2 0] (short_open ''X'') =
     Inr ((short_open ''X'')\<lparr>trailing_stop := 99\<rparr>) \<and>
   trailing_stop ((short_open ''X'')\<lparr>trailing_stop := 99\<rparr>) \<le> trailing_stop (short_open ''X'')"
proof -
  have a: "backtest_step ''X'' 10000 0.03 (plain_bar 1 103 2 0) (scenario_open ''X'') =
     Inr ((scenario_open ''X'')\<lparr>trailing_stop := 100\<rparr>) \<and> position (scenario_open ''X'') > 0"
    by (simp add: run_defs scenario_open_def)
  have b: "backtest_step ''X'' 10000 0.03 (plain_bar 1 97 2 0) (short_open ''X'') =
     Inr ((short_open ''X'')\<lparr>trailing_stop := 100\<rparr>) \<and> position (short_open ''X'') < 0"
    by (simp add: run_defs short_open_def)
  have c: "run_bars ''X'' 10000 0.03 [plain_bar 1 103 2 0, plain_bar 2 104 2 0]
       (scenario_open ''X'') = Inr ((scenario_open ''X'')\<lparr>trailing_stop := 101\<rparr>) \<and>
     position (scenario_open ''X'') > 0 \<and>
     position ((scenario_open ''X'')\<lparr>trailing_stop := 101\<rparr>) \<noteq> 0 \<and>
     length (trades ((scenario_open ''X'')\<lparr>trailing_stop := 101\<rparr>)) =
       length (trades (scenario_open ''X''))"
    by (simp add: run_defs scenario_open_def)
  have d: "run_bars ''X'' 10000 0.03 [plain_bar 1 97 2 0, plain_bar 2 96 2 0]
       (short_open ''X'') = Inr ((short_open ''X'')\<lparr>trailing_stop := 99\<rparr>) \<and>
     position (short_open ''X'') < 0 \<and>
     position ((short_open ''X'')\<lparr>trailing_stop := 99\<rparr>) \<noteq> 0 \<and>
     length (trades ((short_open ''X'')\<lparr>trailing_stop := 99\<rparr>)) =
       length (trades (short_open ''X''))"
    by (simp add: run_defs short_open_def)
  have a': "trailing_stop (scenario_open ''X'') \<le>
      trailing_stop ((scenario_open ''X'')\<lparr>trailing_stop := 100\<rparr>)"
    using trailing_stop_monotone [of "''X''" 10000 "0.03" "plain_bar 1 103 2 0"
        "scenario_open ''X''" "(scenario_open ''X'')\<lparr>trailing_stop := 100\<rparr>"] a
    by blast
  have b': "trailing_stop ((short_open ''X'')\<lparr>trailing_stop := 100\<rparr>) \<le>
      trailing_stop (short_open ''X'')"
    using trailing_stop_monotone [of "''X''" 10000 "0.03" "plain_bar 1 97 2 0"
        "short_open ''X''" "(short_open ''X'')\<lparr>trailing_stop := 100\<rparr>"] b
    by blast
  have c': "trailing_stop (scenario_open ''X'') \<le>
      trailing_stop ((scenario_open ''X'')\<lparr>trailing_stop := 101\<rparr>)"
    using trailing_stop_monotone [of "''X''" 10000 "0.03" _ _ _
        "[plain_bar 1 103 2 0, plain_bar 2 104 2 0]"
        "scenario_open ''X''" "(scenario_open ''X'')\<lparr>trailing_stop := 101\<rparr>"] c
    by blast
  have d': "trailing_stop ((short_open ''X'')\<lparr>trailing_stop := 99\<rparr>) \<le>
      trailing_stop (short_open ''X'')"
    using trailing_stop_monotone [of "''X''" 10000 "0.03" _ _ _
        "[plain_bar 1 97 2 0, plain_bar 2 96 2 0]"
        "short_open ''X''" "(short_open ''X'')\<lparr>trailing_stop := 99\<rparr>"] d
    by blast
  from a b c d a' b' c' d' show ?thesis by blast
qed

subsection \<open>Every trade closed at the end\<close>

lemma position_size_factor_nonzero: "position_size_factor v \<noteq> 0"
  using position_size_factor_bounds(1) [of v] by auto

lemma step_entry_nonzero:
  assumes "backtest_step symb ic r b s = Inr s'" "ic * r \<noteq> 0"
    "length (trades s') \<noteq> length (trades s)"
  shows "position s' \<noteq> 0"
  using assms
  by (auto simp: backtest_step_def Let_def length_close_last position_size_factor_nonzero
      split: if_splits)

lemma step_ledger_inv:
  assumes "backtest_step symb ic r b s = Inr s'" "ic * r \<noteq> 0" "ledger_inv s"
  shows "ledger_inv s'"
  using assms(1)
proof (cases rule: step_cases)
  case keep
  with assms(3) show ?thesis by (simp add: ledger_inv_def)
next
  case (entry d)
  then have "position s' \<noteq> 0"
    using step_entry_nonzero [OF assms(1,2)] by simp
  with entry assms(3) show ?thesis
    by (simp add: ledger_inv_def open_trade_def)
next
  case (exit pr)
  with assms(3) show ?thesis
    by (simp add: ledger_inv_def set_close_last)
qed

lemma run_ledger_inv:
  "run_bars symb ic r bs s = Inr s' \<Longrightarrow> ic * r \<noteq> 0 \<Longrightarrow> ledger_inv s \<Longrightarrow> ledger_inv s'"
proof (induction bs arbitrary: s)
  case Nil
  then show ?case by simp
next
  case (Cons b bs)
  from Cons.prems(1) obtain s1 where
    s1: "backtest_step symb ic r b s = Inr s1" and rest: "run_bars symb ic r bs s1 = Inr s'"
    by (auto split: sum.splits)
  from Cons.IH [OF rest Cons.prems(2) step_ledger_inv [OF s1 Cons.prems(2,3)]]
  show ?case .
qed

lemma initial_ledger_inv: "ledger_inv (initial_state ic)"
  by (simp add: ledger_inv_def initial_state_def)

lemma run_nonempty:
  assumes "run_bars symb ic r data (initial_state ic) = Inr s" "position s \<noteq> 0"
  shows "data \<noteq> []"
  using assms by (auto simp: initial_state_def)

lemma step_exit_profit:
  assumes "backtest_step symb ic r b s = Inr s'" "position s \<noteq> 0" "position s' = 0"
  shows "portfolio s' = portfolio s +
           (if position s > 0 then (Close b - entry_price s) * position s
            else (entry_price s - Close b) * \<bar>position s\<bar>)"
  using assms
  by (simp add: backtest_step_def Let_def split: if_splits) auto

text \<open>
  C2, as the code has it. Let the initial capital times the risk fraction be non-zero, and
  let the loop end in state \<open>s\<close>. Then \<open>backtest_strategy\<close> returns, and every trade
  of the returned list has status Closed. If the position is zero after the last bar, the
  list and the portfolio are those of \<open>s\<close>. If it is not, the sequence has a last bar,
  the last trade of \<open>s\<close> is the open one, and it is closed at the close of the last bar
  with profit \<open>(close - entry_price) * position\<close> for a positive position and
  \<open>(entry_price - close) * \<bar>position\<bar>\<close> for a negative one, which is also added
  to the portfolio. These are the amounts that an exit inside the loop adds for a positive
  and for a negative position.
\<close>

theorem run_ends_closed:
  fixes data :: "bar list" and s :: state
  defines "c \<equiv> Close (last data)"
  defines "pr \<equiv> (if position s > 0 then (c - entry_price s) * position s
                  else (entry_price s - c) * \<bar>position s\<bar>)"
  assumes "ic * r \<noteq> 0" and "run_bars symb ic r data (initial_state ic) = Inr s"
  shows "(\<exists>trs pf. backtest_strategy data symb ic r = Inr (trs, pf) \<and>
            (\<forall>t \<in> set trs. status t = Closed) \<and>
            (position s = 0 \<longrightarrow> trs = trades s \<and> pf = portfolio s) \<and>
            (position s \<noteq> 0 \<longrightarrow>
               data \<noteq> [] \<and> trades s \<noteq> [] \<and> status (last (trades s)) = Open \<and>
               trs = butlast (trades s) @
                       [(last (trades s))\<lparr>exit_price := Some c, profit := Some pr,
                                           status := Closed\<rparr>] \<and>
               pf = portfolio s + pr)) \<and>
         (backtest_step symb ic r b u = Inr u' \<and> position u > 0 \<and> position u' = 0 \<longrightarrow>
            portfolio u' = portfolio u + (Close b - entry_price u) * position u) \<and>
         (backtest_step symb ic r b u = Inr u' \<and> position u < 0 \<and> position u' = 0 \<longrightarrow>
            portfolio u' = portfolio u + (entry_price u - Close b) * \<bar>position u\<bar>)"
proof -
  have inv: "ledger_inv s"
    using run_ledger_inv [OF assms(4) assms(3) initial_ledger_inv] .
  have main: "\<exists>trs pf. backtest_strategy data symb ic r = Inr (trs, pf) \<and>
            (\<forall>t \<in> set trs. status t = Closed) \<and>
            (position s = 0 \<longrightarrow> trs = trades s \<and> pf = portfolio s) \<and>
            (position s \<noteq> 0 \<longrightarrow>
               data \<noteq> [] \<and> trades s \<noteq> [] \<and> status (last (trades s)) = Open \<and>
               trs = butlast (trades s) @
                       [(last (trades s))\<lparr>exit_price := Some c, profit := Some pr,
                                           status := Closed\<rparr>] \<and>
               pf = portfolio s + pr)"
  proof (cases "position s = 0")
    case True
    then have "backtest_strategy data symb ic r = Inr (trades s, portfolio s)"
      using assms(4) by (simp add: backtest_strategy_def forced_closure_def)
    moreover from True inv have "\<forall>t \<in> set (trades s). status t = Closed"
      by (simp add: ledger_inv_def)
    ultimately show ?thesis using True by simp
  next
    case False
    with inv have o: "trades s \<noteq> []" "status (last (trades s)) = Open"
      "\<forall>t \<in> set (butlast (trades s)). status t = Closed"
      by (simp_all add: ledger_inv_def)
    have d: "data \<noteq> []"
      using run_nonempty [OF assms(4) False] .
    have "backtest_strategy data symb ic r =
        Inr (close_last (trades s) c pr, portfolio s + pr)"
      using assms(4) False o(1) d
      by (simp add: backtest_strategy_def forced_closure_def Let_def c_def pr_def)
    moreover have "\<forall>t \<in> set (close_last (trades s) c pr). status t = Closed"
      using o(3) by (simp add: set_close_last [OF o(1)])
    ultimately show ?thesis using False o d by (simp add: close_last_def)
  qed
  have l: "backtest_step symb ic r b u = Inr u' \<and> position u > 0 \<and> position u' = 0 \<longrightarrow>
            portfolio u' = portfolio u + (Close b - entry_price u) * position u"
    using step_exit_profit [of symb ic r b u u'] by auto
  have sh: "backtest_step symb ic r b u = Inr u' \<and> position u < 0 \<and> position u' = 0 \<longrightarrow>
            portfolio u' = portfolio u + (entry_price u - Close b) * \<bar>position u\<bar>"
    using step_exit_profit [of symb ic r b u u'] by auto
  from main l sh show ?thesis by blast
qed

theorem run_ends_closed_witness:
  "backtest_strategy [plain_bar 0 100 2 1, plain_bar 1 104 2 0] ''X'' 10000 0.03 =
     Inr ([\<lparr>timestamp = 0, symbol = ''X'', direction = Long, trade_entry_price = 100,
             exit_price = Some 104, profit = Some (2400 / 7), status = Closed\<rparr>],
          10000 + 2400 / 7) \<and>
   portfolio (scenario_closed ''X'') =
     portfolio (scenario_open ''X'') + (108 - 100) * position (scenario_open ''X'') \<and>
   portfolio (short_exit_state ''X'') =
     portfolio (short_open ''X'') + (100 - 96) * \<bar>position (short_open ''X'')\<bar>"
proof -
  let ?data = "[plain_bar 0 100 2 1, plain_bar 1 104 2 0]"
  let ?s = "(scenario_open ''X'')\<lparr>trailing_stop := 101\<rparr>"
  have h0: "(10000 :: real) * 0.03 \<noteq> 0" by simp
  have h1: "run_bars ''X'' 10000 0.03 ?data (initial_state 10000) = Inr ?s"
    by (simp add: run_defs scenario_open_def)
  have p: "position ?s \<noteq> 0" by (simp add: scenario_open_def)
  have l: "backtest_step ''X'' 10000 0.03 (plain_bar 1 108 2 0) (scenario_open ''X'') =
      Inr (scenario_closed ''X'') \<and> position (scenario_open ''X'') > 0 \<and>
      position (scenario_closed ''X'') = 0"
    by (simp add: run_defs scenario_open_def scenario_closed_def)
  have sh: "backtest_step ''X'' 10000 0.03 (plain_bar 1 96 1 0) (short_open ''X'') =
      Inr (short_exit_state ''X'') \<and> position (short_open ''X'') < 0 \<and>
      position (short_exit_state ''X'') = 0"
    by (simp add: run_defs short_open_def short_exit_state_def)
  from run_ends_closed [OF h0 h1, of "plain_bar 1 108 2 0" "scenario_open ''X''"
      "scenario_closed ''X''"] p
  obtain trs pf where
    ret: "backtest_strategy ?data ''X'' 10000 0.03 = Inr (trs, pf)" and
    trs: "trs = butlast (trades ?s) @
       [(last (trades ?s))\<lparr>exit_price := Some (Close (last ?data)),
          profit := Some (if position ?s > 0
             then (Close (last ?data) - entry_price ?s) * position ?s
             else (entry_price ?s - Close (last ?data)) * \<bar>position ?s\<bar>),
          status := Closed\<rparr>]" and
    pf: "pf = portfolio ?s + (if position ?s > 0
             then (Close (last ?data) - entry_price ?s) * position ?s
             else (entry_price ?s - Close (last ?data)) * \<bar>position ?s\<bar>)"
    by blast
  have a: "backtest_strategy ?data ''X'' 10000 0.03 =
     Inr ([\<lparr>timestamp = 0, symbol = ''X'', direction = Long, trade_entry_price = 100,
             exit_price = Some 104, profit = Some (2400 / 7), status = Closed\<rparr>],
          10000 + 2400 / 7)"
    unfolding ret trs pf by (simp add: scenario_open_def plain_bar_def)
  have b: "portfolio (scenario_closed ''X'') =
     portfolio (scenario_open ''X'') + (108 - 100) * position (scenario_open ''X'')"
    using run_ends_closed [OF h0 h1, of "plain_bar 1 108 2 0" "scenario_open ''X''"
      "scenario_closed ''X''"] l
    by (simp add: plain_bar_def scenario_open_def)
  have c: "portfolio (short_exit_state ''X'') =
     portfolio (short_open ''X'') + (100 - 96) * \<bar>position (short_open ''X'')\<bar>"
    using run_ends_closed [OF h0 h1, of "plain_bar 1 96 1 0" "short_open ''X''"
      "short_exit_state ''X''"] sh
    by (simp add: plain_bar_def short_open_def)
  from a b c show ?thesis by blast
qed

text \<open>
  The claim as written fails when the computed size is zero: with a risk fraction of 0 the
  entry appends a trade with status Open and leaves the position at zero, so nothing ever
  closes that trade, and the returned list holds it open.
\<close>

theorem run_ends_closed_counterexample:
  "backtest_strategy [plain_bar 0 100 2 1, plain_bar 1 104 2 0] ''X'' 10000 0 =
     Inr ([\<lparr>timestamp = 0, symbol = ''X'', direction = Long, trade_entry_price = 100,
             exit_price = None, profit = None, status = Open\<rparr>], 10000)"
  by (simp add: run_defs)

subsection \<open>Entry on the last bar\<close>

lemma run_bars_append:
  "run_bars symb ic r (xs @ ys) s =
     (case run_bars symb ic r xs s of Inl e \<Rightarrow> Inl e | Inr s' \<Rightarrow> run_bars symb ic r ys s')"
  by (induction xs arbitrary: s) (auto split: sum.splits)

text \<open>
  C10, as the code has it. Let the initial capital times the risk fraction be non-zero, let
  the loop over the bars before the last one end with a zero position, and let the last bar
  carry an entry signal (close and ATR not zero). Then the run returns the trades so far
  followed by the trade of the last bar, with status Closed, exit price equal to its entry
  price and profit 0, and the portfolio value reached before the last bar.
\<close>

theorem final_bar_entry:
  assumes "ic * r \<noteq> 0"
    and "run_bars symb ic r pre (initial_state ic) = Inr s"
    and "position s = 0"
    and "Signal b = 1 \<or> Signal b = - 1"
    and "Close b \<noteq> 0" and "ATR b \<noteq> 0"
  shows "backtest_strategy (pre @ [b]) symb ic r =
     Inr (trades s @
            [\<lparr>timestamp = index b, symbol = symb,
              direction = (if Signal b = 1 then Long else Short),
              trade_entry_price = Close b, exit_price = Some (Close b), profit = Some 0,
              status = Closed\<rparr>],
          portfolio s)"
proof -
  define q where
    "q = (ic * r * position_size_factor (ATR b / Close b)) / stop_loss (ATR b) (ATR b / Close b)"
  have q: "q \<noteq> 0"
    using assms(1,6) by (simp add: q_def position_size_factor_nonzero stop_loss_nonzero)
  from assms(4) show ?thesis
  proof
    assume l: "Signal b = 1"
    have "run_bars symb ic r (pre @ [b]) (initial_state ic) =
        Inr (s\<lparr>position := q, entry_price := Close b, trailing_stop := Close b - ATR b,
               trades := trades s @ [open_trade b symb Long]\<rparr>)"
      using assms(2) step_entry_long [OF l assms(3,5,6), of symb ic r]
      by (simp add: run_bars_append q_def)
    then show ?thesis
      using q l
      by (simp add: backtest_strategy_def forced_closure_def Let_def close_last_def
          open_trade_def)
  next
    assume sh: "Signal b = - 1"
    have "run_bars symb ic r (pre @ [b]) (initial_state ic) =
        Inr (s\<lparr>position := - q, entry_price := Close b, trailing_stop := Close b + ATR b,
               trades := trades s @ [open_trade b symb Short]\<rparr>)"
      using assms(2) step_entry_short [OF sh assms(3,5,6), of symb ic r]
      by (simp add: run_bars_append q_def)
    then show ?thesis
      using q sh
      by (simp add: backtest_strategy_def forced_closure_def Let_def close_last_def
          open_trade_def)
  qed
qed

theorem final_bar_entry_witness:
  "backtest_strategy ([plain_bar 0 100 2 1, plain_bar 1 108 2 0] @ [plain_bar 2 100 2 (- 1)])
       ''X'' 10000 0.03 =
     Inr (trades (scenario_closed ''X'') @
            [\<lparr>timestamp = 2, symbol = ''X'', direction = Short,
              trade_entry_price = 100, exit_price = Some 100, profit = Some 0,
              status = Closed\<rparr>],
          portfolio (scenario_closed ''X''))"
proof -
  have h0: "(10000 :: real) * 0.03 \<noteq> 0" by simp
  have h1: "run_bars ''X'' 10000 0.03 [plain_bar 0 100 2 1, plain_bar 1 108 2 0]
      (initial_state 10000) = Inr (scenario_closed ''X'')"
    by (simp add: run_defs scenario_closed_def)
  have h2: "position (scenario_closed ''X'') = 0" by (simp add: scenario_closed_def)
  have h3: "Signal (plain_bar 2 100 2 (- 1)) = 1 \<or> Signal (plain_bar 2 100 2 (- 1)) = - 1"
    by (simp add: plain_bar_def)
  have h4: "Close (plain_bar 2 100 2 (- 1)) \<noteq> 0" by (simp add: plain_bar_def)
  have h5: "ATR (plain_bar 2 100 2 (- 1)) \<noteq> 0" by (simp add: plain_bar_def)
  from final_bar_entry [OF h0 h1 h2 h3 h4 h5] show ?thesis
    by (simp add: plain_bar_def)
qed

text \<open>
  The claim as written fails when the computed size is zero: with an initial capital of 0
  the entry on the final bar leaves the position at zero, the forced closure does not run,
  and the trade is returned with status Open and no profit.
\<close>

theorem final_bar_entry_counterexample:
  "run_bars ''X'' 0 0.03 [plain_bar 0 100 2 0] (initial_state 0) = Inr (initial_state 0) \<and>
   position (initial_state 0) = 0 \<and> Signal (plain_bar 1 100 2 1) = 1 \<and>
   backtest_strategy [plain_bar 0 100 2 0, plain_bar 1 100 2 1] ''X'' 0 0.03 =
     Inr ([\<lparr>timestamp = 1, symbol = ''X'', direction = Long, trade_entry_price = 100,
             exit_price = None, profit = None, status = Open\<rparr>], 0)"
  by (simp add: run_defs)

subsection \<open>A bar with an ATR that is zero or negative\<close>

text \<open>An entry signal on a zero position always enters: no test stands in the way.\<close>

lemma step_np_entry_long:
  assumes "Signal b = 1" "np_eq (position_np s) (Fin 0)"
  shows "backtest_step_np symb ic r b s =
     Inr (s\<lparr>position_np :=
               np_div (np_mul (np_mul (Fin ic) (Fin r))
                              (position_size_factor_np (np_div (Fin (ATR b)) (Fin (Close b)))))
                      (stop_loss_np (Fin (ATR b)) (np_div (Fin (ATR b)) (Fin (Close b)))),
             entry_price_np := Fin (Close b),
             trailing_stop_np := np_sub (Fin (Close b)) (Fin (ATR b)),
             trades_np := trades_np s @ [open_trade_np b symb Long]\<rparr>)"
  using assms by (simp add: backtest_step_np_def Let_def)

lemma step_np_entry_short:
  assumes "Signal b = - 1" "np_eq (position_np s) (Fin 0)"
  shows "backtest_step_np symb ic r b s =
     Inr (s\<lparr>position_np :=
               np_div (np_neg (np_mul (np_mul (Fin ic) (Fin r))
                              (position_size_factor_np (np_div (Fin (ATR b)) (Fin (Close b))))))
                      (stop_loss_np (Fin (ATR b)) (np_div (Fin (ATR b)) (Fin (Close b)))),
             entry_price_np := Fin (Close b),
             trailing_stop_np := np_add (Fin (Close b)) (Fin (ATR b)),
             trades_np := trades_np s @ [open_trade_np b symb Short]\<rparr>)"
  using assms by (simp add: backtest_step_np_def Let_def)

text \<open>The volatility factor, the stop-loss distance and the size factor of such a bar.\<close>

lemma vf_zero_atr: "0 < c \<Longrightarrow> np_div (Fin 0) (Fin c) = Fin 0"
  by (simp add: np_defs)

lemma vf_neg_atr: "a < 0 \<Longrightarrow> 0 < c \<Longrightarrow> np_div (Fin a) (Fin c) = Fin (a / c)"
  by (simp add: np_defs)

lemma stop_loss_np_zero_atr: "stop_loss_np (Fin 0) (Fin 0) = Fin 0"
  by (simp add: stop_loss_np_def np_defs)

lemma stop_loss_np_neg_atr:
  "a < 0 \<Longrightarrow> v < 0 \<Longrightarrow> stop_loss_np (Fin a) (Fin v) = Fin (a * 2)"
  by (simp add: stop_loss_np_def np_defs)

lemma psf_np_zero_atr: "position_size_factor_np (Fin 0) = Fin 1.5"
  by (simp add: position_size_factor_np_def np_defs)

lemma psf_np_neg_atr: "v < 0 \<Longrightarrow> position_size_factor_np (Fin v) = Fin 0.5"
proof -
  assume v: "v < 0"
  define x where "x = 0.02 / v"
  from v have x: "x < 0" by (simp add: x_def divide_pos_neg)
  from v have "np_div (Fin 0.02) (Fin v) = Fin x"
    by (simp add: np_defs x_def)
  moreover from x have "py_max (Fin 0.5) (py_min (Fin 1.5) (Fin x)) = Fin 0.5"
    by (simp add: np_defs)
  ultimately show ?thesis by (simp add: position_size_factor_np_def)
qed

lemma size_np_zero_atr:
  "np_div (np_mul (np_mul (Fin ic) (Fin r)) (Fin 1.5)) (Fin 0) =
     (if 0 < ic * r then PInf else if ic * r < 0 then NInf else NaN)"
  by (auto simp: np_defs zero_less_mult_iff mult_less_0_iff)

lemma size_np_zero_atr_neg:
  "np_div (np_neg (np_mul (np_mul (Fin ic) (Fin r)) (Fin 1.5))) (Fin 0) =
     (if 0 < ic * r then NInf else if ic * r < 0 then PInf else NaN)"
  by (auto simp: np_defs zero_less_mult_iff mult_less_0_iff)

lemma size_np_neg_atr:
  "a < 0 \<Longrightarrow> ic * r \<noteq> 0 \<Longrightarrow>
   np_div (np_mul (np_mul (Fin ic) (Fin r)) (Fin 0.5)) (Fin (a * 2)) =
     Fin ((ic * r * 0.5) / (2 * a))"
  by (auto simp: np_defs mult.commute)

lemma size_np_neg_atr_neg:
  "a < 0 \<Longrightarrow> ic * r \<noteq> 0 \<Longrightarrow>
   np_div (np_neg (np_mul (np_mul (Fin ic) (Fin r)) (Fin 0.5))) (Fin (a * 2)) =
     Fin (- (ic * r * 0.5) / (2 * a))"
  by (auto simp: np_defs mult.commute)

lemma np_ne_Fin: "x \<noteq> 0 \<Longrightarrow> np_ne (Fin x) (Fin 0)"
  by (auto simp: np_defs)

text \<open>No iteration raises, and neither does the forced closure: the run always returns.\<close>

lemma step_np_returns:
  assumes "open_inv_np s"
  shows "\<exists>s'. backtest_step_np symb ic r b s = Inr s' \<and> open_inv_np s'"
proof -
  consider (long) "Signal b = 1 \<and> np_eq (position_np s) (Fin 0)"
    | (short) "\<not> (Signal b = 1 \<and> np_eq (position_np s) (Fin 0))"
        "Signal b = - 1 \<and> np_eq (position_np s) (Fin 0)"
    | (held) "np_ne (position_np s) (Fin 0)"
    | (idle) "\<not> (Signal b = 1 \<and> np_eq (position_np s) (Fin 0))"
        "\<not> (Signal b = - 1 \<and> np_eq (position_np s) (Fin 0))" "\<not> np_ne (position_np s) (Fin 0)"
    by blast
  then show ?thesis
  proof cases
    case long
    then show ?thesis
      by (simp add: backtest_step_np_def Let_def open_inv_np_def)
  next
    case short
    then show ?thesis
      by (simp add: backtest_step_np_def Let_def open_inv_np_def)
  next
    case held
    then have e: "\<not> np_eq (position_np s) (Fin 0)" by (simp add: np_ne_def)
    from held assms have t: "trades_np s \<noteq> []" by (simp add: open_inv_np_def)
    have z: "\<not> np_ne (Fin 0) (Fin 0)" by (simp add: np_defs)
    show ?thesis
      using held e t z
      by (simp add: backtest_step_np_def Let_def open_inv_np_def close_last_np_def)
  next
    case idle
    then have e: "np_eq (position_np s) (Fin 0)" by (simp add: np_ne_def)
    with idle have sg: "Signal b \<noteq> 1" "Signal b \<noteq> - 1" by auto
    from e have "\<not> np_ne (position_np s) (Fin 0)" by (simp add: np_ne_def)
    with sg assms show ?thesis
      by (simp add: backtest_step_np_def Let_def)
  qed
qed

lemma run_np_returns:
  "open_inv_np s \<Longrightarrow> \<exists>s'. run_bars_np symb ic r bs s = Inr s' \<and> open_inv_np s'"
proof (induction bs arbitrary: s)
  case Nil
  then show ?case by simp
next
  case (Cons b bs)
  from step_np_returns [OF Cons.prems, of symb ic r b] obtain s1 where
    s1: "backtest_step_np symb ic r b s = Inr s1" and o1: "open_inv_np s1"
    by blast
  from Cons.IH [OF o1] s1 show ?case by simp
qed

lemma run_np_nonempty:
  assumes "run_bars_np symb ic r data (initial_state_np ic) = Inr s"
    "np_ne (position_np s) (Fin 0)"
  shows "data \<noteq> []"
  using assms by (auto simp: initial_state_np_def np_defs)

lemma backtest_strategy_np_returns:
  "\<exists>res. backtest_strategy_np data symb ic r = Inr res"
proof -
  have "open_inv_np (initial_state_np ic)"
    by (simp add: open_inv_np_def initial_state_np_def np_defs)
  from run_np_returns [OF this, of symb ic r data] obtain s where
    s: "run_bars_np symb ic r data (initial_state_np ic) = Inr s" and o: "open_inv_np s"
    by blast
  have "\<exists>s'. forced_closure_np data s = Inr s'"
  proof (cases "np_ne (position_np s) (Fin 0)")
    case True
    with o have "trades_np s \<noteq> []" by (simp add: open_inv_np_def)
    moreover have "data \<noteq> []" using run_np_nonempty [OF s True] .
    ultimately show ?thesis using True by (simp add: forced_closure_np_def Let_def)
  next
    case False
    then show ?thesis by (simp add: forced_closure_np_def)
  qed
  with s show ?thesis by (auto simp: backtest_strategy_np_def)
qed

text \<open>
  C8, as the code has it. Nothing guards the sizing and nothing is skipped. Take a bar with
  an ATR that is zero or negative and a positive close, carrying an entry signal while the
  position is zero. The iteration completes, a trade with status Open is appended, the
  entry price is the close and the portfolio is unchanged. For a negative ATR the position
  is set to \<open>(initial_capital * risk_per_trade * 0.5) / (2 * ATR)\<close> for a Long signal
  and to its negation for a Short one. For a zero ATR the size factor is 1.5 and the
  division by the zero stop-loss distance gives plus infinity, minus infinity or NaN,
  according to the sign of \<open>initial_capital * risk_per_trade\<close> (negated for a Short
  signal). When the ATR is zero, or \<open>initial_capital * risk_per_trade\<close> is not zero, the
  new position counts as open (\<^verbatim>\<open>position != 0\<close>). The run as a whole returns on every
  bar sequence: no division raises.
\<close>

theorem unguarded_entry:
  fixes b :: bar and s :: state_np and ic r :: real
  defines "k \<equiv> (if Signal b = 1 then 1 else - 1 :: real)"
  defines "d \<equiv> (if Signal b = 1 then Long else Short)"
  assumes "ATR b \<le> 0" and "Close b > 0"
    and "np_eq (position_np s) (Fin 0)"
    and "Signal b = 1 \<or> Signal b = - 1"
  shows "(\<exists>s'. backtest_step_np symb ic r b s = Inr s' \<and>
            trades_np s' = trades_np s @
              [\<lparr>timestamp_np = index b, symbol_np = symb, direction_np = d,
                trade_entry_price_np = Fin (Close b), exit_price_np = None,
                profit_np = None, status_np = Open\<rparr>] \<and>
            entry_price_np s' = Fin (Close b) \<and>
            portfolio_np s' = portfolio_np s \<and>
            (ATR b < 0 \<and> ic * r \<noteq> 0 \<longrightarrow>
               position_np s' = Fin (k * (ic * r * 0.5) / (2 * ATR b))) \<and>
            (ATR b = 0 \<and> 0 < k * (ic * r) \<longrightarrow> position_np s' = PInf) \<and>
            (ATR b = 0 \<and> k * (ic * r) < 0 \<longrightarrow> position_np s' = NInf) \<and>
            (ATR b = 0 \<and> ic * r = 0 \<longrightarrow> position_np s' = NaN) \<and>
            (ATR b = 0 \<or> ic * r \<noteq> 0 \<longrightarrow> np_ne (position_np s') (Fin 0))) \<and>
         (\<exists>res. backtest_strategy_np data symb ic r = Inr res)"
proof -
  let ?vf = "np_div (Fin (ATR b)) (Fin (Close b))"
  let ?num = "np_mul (np_mul (Fin ic) (Fin r)) (position_size_factor_np ?vf)"
  let ?sl = "stop_loss_np (Fin (ATR b)) ?vf"
  define q where "q = (if Signal b = 1 then np_div ?num ?sl else np_div (np_neg ?num) ?sl)"
  define s' where
    "s' = s\<lparr>position_np := q, entry_price_np := Fin (Close b),
             trailing_stop_np := (if Signal b = 1 then np_sub (Fin (Close b)) (Fin (ATR b))
                                  else np_add (Fin (Close b)) (Fin (ATR b))),
             trades_np := trades_np s @ [open_trade_np b symb d]\<rparr>"
  have step: "backtest_step_np symb ic r b s = Inr s'"
  proof (cases "Signal b = 1")
    case True
    with step_np_entry_long [OF True assms(5), of symb ic r] show ?thesis
      by (simp add: d_def s'_def q_def)
  next
    case False
    with assms(6) have sh: "Signal b = - 1" by simp
    with step_np_entry_short [OF sh assms(5), of symb ic r] False show ?thesis
      by (simp add: d_def s'_def q_def)
  qed
  have neg: "q = Fin (k * (ic * r * 0.5) / (2 * ATR b))" if a: "ATR b < 0" "ic * r \<noteq> 0"
  proof -
    have v: "ATR b / Close b < 0"
      using a(1) assms(4) by (simp add: divide_neg_pos)
    have vf: "?vf = Fin (ATR b / Close b)"
      using a(1) assms(4) by (simp add: vf_neg_atr)
    have sl: "?sl = Fin (ATR b * 2)"
      using a(1) v by (simp add: vf stop_loss_np_neg_atr)
    have psf: "position_size_factor_np ?vf = Fin 0.5"
      using v by (simp add: vf psf_np_neg_atr)
    show ?thesis
    proof (cases "Signal b = 1")
      case True
      then have "q = np_div ?num ?sl" by (simp add: q_def)
      also have "\<dots> = np_div (np_mul (np_mul (Fin ic) (Fin r)) (Fin 0.5)) (Fin (ATR b * 2))"
        by (simp only: sl psf)
      also have "\<dots> = Fin ((ic * r * 0.5) / (2 * ATR b))"
        using a by (intro size_np_neg_atr)
      finally show ?thesis using True by (simp add: k_def)
    next
      case False
      then have "q = np_div (np_neg ?num) ?sl" by (simp add: q_def)
      also have "\<dots> =
          np_div (np_neg (np_mul (np_mul (Fin ic) (Fin r)) (Fin 0.5))) (Fin (ATR b * 2))"
        by (simp only: sl psf)
      also have "\<dots> = Fin (- (ic * r * 0.5) / (2 * ATR b))"
        using a by (intro size_np_neg_atr_neg)
      finally show ?thesis using False by (simp add: k_def)
    qed
  qed
  have zero: "q = (if 0 < k * (ic * r) then PInf else if k * (ic * r) < 0 then NInf else NaN)"
    if a: "ATR b = 0"
  proof -
    have vf: "np_div (Fin 0) (Fin (Close b)) = Fin 0"
      using assms(4) by (simp add: vf_zero_atr)
    have sl: "?sl = Fin 0"
      unfolding a by (simp add: vf stop_loss_np_zero_atr)
    have psf: "position_size_factor_np ?vf = Fin 1.5"
      unfolding a by (simp add: vf psf_np_zero_atr)
    show ?thesis
    proof (cases "Signal b = 1")
      case True
      then have "q = np_div ?num ?sl" by (simp add: q_def)
      also have "\<dots> = np_div (np_mul (np_mul (Fin ic) (Fin r)) (Fin 1.5)) (Fin 0)"
        by (simp only: sl psf)
      also have "\<dots> = (if 0 < ic * r then PInf else if ic * r < 0 then NInf else NaN)"
        by (rule size_np_zero_atr)
      finally show ?thesis using True by (simp add: k_def)
    next
      case False
      then have "q = np_div (np_neg ?num) ?sl" by (simp add: q_def)
      also have "\<dots> = np_div (np_neg (np_mul (np_mul (Fin ic) (Fin r)) (Fin 1.5))) (Fin 0)"
        by (simp only: sl psf)
      also have "\<dots> = (if 0 < ic * r then NInf else if ic * r < 0 then PInf else NaN)"
        by (rule size_np_zero_atr_neg)
      finally show ?thesis using False by (auto simp: k_def)
    qed
  qed
  have kz: "k * (ic * r) = 0 \<longleftrightarrow> ic * r = 0"
    by (simp add: k_def)
  have special: "np_ne PInf (Fin 0)" "np_ne NInf (Fin 0)" "np_ne NaN (Fin 0)"
    by (simp_all add: np_defs)
  have ne: "np_ne q (Fin 0)" if a: "ATR b = 0 \<or> ic * r \<noteq> 0"
  proof (cases "ATR b = 0")
    case True
    from zero [OF True] have "q = PInf \<or> q = NInf \<or> q = NaN"
      by (cases "0 < k * (ic * r)"; cases "k * (ic * r) < 0") simp_all
    with special show ?thesis by blast
  next
    case False
    with a assms(3) have n: "ATR b < 0" "ic * r \<noteq> 0" by simp_all
    have "k * (ic * r * 0.5) / (2 * ATR b) \<noteq> 0"
      using n by (simp add: k_def)
    then have "np_ne (Fin (k * (ic * r * 0.5) / (2 * ATR b))) (Fin 0)"
      by (rule np_ne_Fin)
    with neg [OF n] show ?thesis by simp
  qed
  have t: "trades_np s' = trades_np s @
              [\<lparr>timestamp_np = index b, symbol_np = symb, direction_np = d,
                trade_entry_price_np = Fin (Close b), exit_price_np = None,
                profit_np = None, status_np = Open\<rparr>]"
    by (simp add: s'_def open_trade_np_def)
  have e: "entry_price_np s' = Fin (Close b)" "portfolio_np s' = portfolio_np s"
    "position_np s' = q"
    by (simp_all add: s'_def)
  have c1: "ATR b < 0 \<and> ic * r \<noteq> 0 \<longrightarrow>
      position_np s' = Fin (k * (ic * r * 0.5) / (2 * ATR b))"
    using neg e(3) by simp
  have c2: "ATR b = 0 \<and> 0 < k * (ic * r) \<longrightarrow> position_np s' = PInf"
    using zero e(3) by simp
  have c3: "ATR b = 0 \<and> k * (ic * r) < 0 \<longrightarrow> position_np s' = NInf"
    using zero e(3) by simp
  have c4: "ATR b = 0 \<and> ic * r = 0 \<longrightarrow> position_np s' = NaN"
  proof
    assume h: "ATR b = 0 \<and> ic * r = 0"
    then have "ic * r = 0" by blast
    then have z: "k * (ic * r) = 0" by (simp only: mult_zero_right)
    from h zero have "q = (if 0 < k * (ic * r) then PInf
        else if k * (ic * r) < 0 then NInf else NaN)"
      by blast
    then show "position_np s' = NaN"
      unfolding z e(3) by simp
  qed
  have c5: "ATR b = 0 \<or> ic * r \<noteq> 0 \<longrightarrow> np_ne (position_np s') (Fin 0)"
    using ne e(3) by simp
  from step t e(1,2) c1 c2 c3 c4 c5 backtest_strategy_np_returns [of data symb ic r]
  show ?thesis by blast
qed

theorem unguarded_entry_witness:
  "backtest_step_np ''X'' 10000 0.03 (plain_bar 0 100 0 1) (initial_state_np 10000) =
     Inr \<lparr>position_np = PInf, portfolio_np = Fin 10000,
          trades_np = [\<lparr>timestamp_np = 0, symbol_np = ''X'', direction_np = Long,
                        trade_entry_price_np = Fin 100, exit_price_np = None,
                        profit_np = None, status_np = Open\<rparr>],
          entry_price_np = Fin 100, trailing_stop_np = Fin 100\<rparr> \<and>
   backtest_step_np ''X'' 10000 0.03 (plain_bar 0 100 0 (- 1)) (initial_state_np 10000) =
     Inr \<lparr>position_np = NInf, portfolio_np = Fin 10000,
          trades_np = [\<lparr>timestamp_np = 0, symbol_np = ''X'', direction_np = Short,
                        trade_entry_price_np = Fin 100, exit_price_np = None,
                        profit_np = None, status_np = Open\<rparr>],
          entry_price_np = Fin 100, trailing_stop_np = Fin 100\<rparr> \<and>
   backtest_step_np ''X'' 0 0.03 (plain_bar 0 100 0 1) (initial_state_np 0) =
     Inr \<lparr>position_np = NaN, portfolio_np = Fin 0,
          trades_np = [\<lparr>timestamp_np = 0, symbol_np = ''X'', direction_np = Long,
                        trade_entry_price_np = Fin 100, exit_price_np = None,
                        profit_np = None, status_np = Open\<rparr>],
          entry_price_np = Fin 100, trailing_stop_np = Fin 100\<rparr> \<and>
   backtest_step_np ''X'' 10000 0.03 (plain_bar 0 100 (- 2) 1) (initial_state_np 10000) =
     Inr \<lparr>position_np = Fin (- (75 / 2)), portfolio_np = Fin 10000,
          trades_np = [\<lparr>timestamp_np = 0, symbol_np = ''X'', direction_np = Long,
                        trade_entry_price_np = Fin 100, exit_price_np = None,
                        profit_np = None, status_np = Open\<rparr>],
          entry_price_np = Fin 100, trailing_stop_np = Fin 102\<rparr> \<and>
   np_ne PInf (Fin 0) \<and> np_ne NInf (Fin 0) \<and> np_ne NaN (Fin 0) \<and>
   np_ne (Fin (- (75 / 2))) (Fin 0) \<and>
   (\<exists>res. backtest_strategy_np [plain_bar 0 100 0 1] ''X'' 10000 0.03 = Inr res)"
proof -
  let ?L = "plain_bar 0 100 0 1" and ?S = "plain_bar 0 100 0 (- 1)"
    and ?N = "plain_bar 0 100 (- 2) 1"
  have flat: "np_eq (position_np (initial_state_np 10000)) (Fin 0)"
    "np_eq (position_np (initial_state_np 0)) (Fin 0)"
    by (simp_all add: initial_state_np_def np_defs)
  have hl: "ATR ?L \<le> 0" "Close ?L > 0" "Signal ?L = 1 \<or> Signal ?L = - 1"
    by (simp_all add: plain_bar_def)
  have hs: "ATR ?S \<le> 0" "Close ?S > 0" "Signal ?S = 1 \<or> Signal ?S = - 1"
    by (simp_all add: plain_bar_def)
  have hn: "ATR ?N \<le> 0" "Close ?N > 0" "Signal ?N = 1 \<or> Signal ?N = - 1"
    by (simp_all add: plain_bar_def)
  have e1: "backtest_step_np ''X'' 10000 0.03 ?L (initial_state_np 10000) =
     Inr \<lparr>position_np = PInf, portfolio_np = Fin 10000,
          trades_np = [\<lparr>timestamp_np = 0, symbol_np = ''X'', direction_np = Long,
                        trade_entry_price_np = Fin 100, exit_price_np = None,
                        profit_np = None, status_np = Open\<rparr>],
          entry_price_np = Fin 100, trailing_stop_np = Fin 100\<rparr>"
    by (simp add: run_np_defs np_defs)
  have e2: "backtest_step_np ''X'' 10000 0.03 ?S (initial_state_np 10000) =
     Inr \<lparr>position_np = NInf, portfolio_np = Fin 10000,
          trades_np = [\<lparr>timestamp_np = 0, symbol_np = ''X'', direction_np = Short,
                        trade_entry_price_np = Fin 100, exit_price_np = None,
                        profit_np = None, status_np = Open\<rparr>],
          entry_price_np = Fin 100, trailing_stop_np = Fin 100\<rparr>"
    by (simp add: run_np_defs np_defs)
  have e3: "backtest_step_np ''X'' 0 0.03 ?L (initial_state_np 0) =
     Inr \<lparr>position_np = NaN, portfolio_np = Fin 0,
          trades_np = [\<lparr>timestamp_np = 0, symbol_np = ''X'', direction_np = Long,
                        trade_entry_price_np = Fin 100, exit_price_np = None,
                        profit_np = None, status_np = Open\<rparr>],
          entry_price_np = Fin 100, trailing_stop_np = Fin 100\<rparr>"
    by (simp add: run_np_defs np_defs)
  have e4: "backtest_step_np ''X'' 10000 0.03 ?N (initial_state_np 10000) =
     Inr \<lparr>position_np = Fin (- (75 / 2)), portfolio_np = Fin 10000,
          trades_np = [\<lparr>timestamp_np = 0, symbol_np = ''X'', direction_np = Long,
                        trade_entry_price_np = Fin 100, exit_price_np = None,
                        profit_np = None, status_np = Open\<rparr>],
          entry_price_np = Fin 100, trailing_stop_np = Fin 102\<rparr>"
    by (simp add: run_np_defs np_defs)
  have n1: "np_ne PInf (Fin 0)"
    using unguarded_entry [OF hl(1,2) flat(1) hl(3), of "''X''" 10000 "0.03" "[?L]"] e1
    by (auto simp: plain_bar_def)
  have n2: "np_ne NInf (Fin 0)"
    using unguarded_entry [OF hs(1,2) flat(1) hs(3), of "''X''" 10000 "0.03" "[?L]"] e2
    by (auto simp: plain_bar_def)
  have n3: "np_ne NaN (Fin 0)"
    using unguarded_entry [OF hl(1,2) flat(2) hl(3), of "''X''" 0 "0.03" "[?L]"] e3
    by (auto simp: plain_bar_def)
  have n4: "np_ne (Fin (- (75 / 2))) (Fin 0)"
    using unguarded_entry [OF hn(1,2) flat(1) hn(3), of "''X''" 10000 "0.03" "[?L]"] e4
    by (auto simp: plain_bar_def)
  have r: "\<exists>res. backtest_strategy_np [?L] ''X'' 10000 0.03 = Inr res"
    using unguarded_entry [OF hl(1,2) flat(1) hl(3), of "''X''" 10000 "0.03" "[?L]"]
    by blast
  from e1 e2 e3 e4 n1 n2 n3 n4 r show ?thesis by blast
qed

text \<open>
  The claim as written fails on a single bar with ATR 0, close 100 and a Long signal: the
  sizing is not skipped, the position becomes plus infinity and a trade is created; the run
  returns that trade, closed at the same bar with the profit \<open>0 * inf\<close>, which is NaN,
  and a portfolio value of NaN. It fails in the same way with ATR -2, where no divisor is
  zero: the position is -37.5, in both embeddings.
\<close>

theorem unguarded_entry_counterexample:
  "ATR (plain_bar 0 100 0 1) \<le> 0 \<and> Signal (plain_bar 0 100 0 1) = 1 \<and>
   np_eq (position_np (initial_state_np 10000)) (Fin 0) \<and>
   backtest_step_np ''X'' 10000 0.03 (plain_bar 0 100 0 1) (initial_state_np 10000) =
     Inr \<lparr>position_np = PInf, portfolio_np = Fin 10000,
          trades_np = [\<lparr>timestamp_np = 0, symbol_np = ''X'', direction_np = Long,
                        trade_entry_price_np = Fin 100, exit_price_np = None,
                        profit_np = None, status_np = Open\<rparr>],
          entry_price_np = Fin 100, trailing_stop_np = Fin 100\<rparr> \<and>
   backtest_strategy_np [plain_bar 0 100 0 1] ''X'' 10000 0.03 =
     Inr ([\<lparr>timestamp_np = 0, symbol_np = ''X'', direction_np = Long,
             trade_entry_price_np = Fin 100, exit_price_np = Some (Fin 100),
             profit_np = Some NaN, status_np = Closed\<rparr>], NaN) \<and>
   ATR (plain_bar 0 100 (- 2) 1) \<le> 0 \<and>
   backtest_step_np ''X'' 10000 0.03 (plain_bar 0 100 (- 2) 1) (initial_state_np 10000) =
     Inr \<lparr>position_np = Fin (- (75 / 2)), portfolio_np = Fin 10000,
          trades_np = [\<lparr>timestamp_np = 0, symbol_np = ''X'', direction_np = Long,
                        trade_entry_price_np = Fin 100, exit_price_np = None,
                        profit_np = None, status_np = Open\<rparr>],
          entry_price_np = Fin 100, trailing_stop_np = Fin 102\<rparr> \<and>
   backtest_step ''X'' 10000 0.03 (plain_bar 0 100 (- 2) 1) (initial_state 10000) =
     Inr \<lparr>position = - (75 / 2), portfolio = 10000,
          trades = [\<lparr>timestamp = 0, symbol = ''X'', direction = Long, trade_entry_price = 100,
                     exit_price = None, profit = None, status = Open\<rparr>],
          entry_price = 100, trailing_stop = 102\<rparr> \<and>
   backtest_strategy [plain_bar 0 100 (- 2) 1] ''X'' 10000 0.03 =
     Inr ([\<lparr>timestamp = 0, symbol = ''X'', direction = Long, trade_entry_price = 100,
             exit_price = Some 100, profit = Some 0, status = Closed\<rparr>], 10000)"
  by (simp add: run_np_defs np_defs run_defs)

subsection \<open>An empty sequence\<close>

text \<open>
  C9, as the code has it. On an empty bar sequence the loop runs no iteration, no trade is
  produced, and \<open>backtest_strategy\<close> returns in the ordinary way, with an empty trade list
  and the initial capital as the portfolio value.
\<close>

theorem empty_data_returns:
  "run_bars symb ic r [] s = Inr s \<and> backtest_strategy [] symb ic r = Inr ([], ic)"
  by (simp add: backtest_strategy_def forced_closure_def initial_state_def)

text \<open>
  The claim as written has the caller informed. The result on the empty sequence is an
  ordinary return, the same value as for a sequence of one bar without a signal.
\<close>

theorem empty_data_counterexample:
  "backtest_strategy [] ''X'' 10000 0.03 = Inr ([], 10000) \<and>
   backtest_strategy [plain_bar 0 100 2 0] ''X'' 10000 0.03 = Inr ([], 10000)"
  by (simp add: run_defs)

subsection \<open>The run returns\<close>

text \<open>
  The theorems above speak of runs that return. Every run over bars whose close and ATR are
  not zero does: no divisor is zero, and no index is out of range.
\<close>

lemma step_returns:
  assumes "Close b \<noteq> 0" "ATR b \<noteq> 0" "open_inv s"
  shows "\<exists>s'. backtest_step symb ic r b s = Inr s'"
  using assms
  by (auto simp: backtest_step_def Let_def open_inv_def stop_loss_nonzero)

lemma run_returns:
  "\<forall>b \<in> set bs. Close b \<noteq> 0 \<and> ATR b \<noteq> 0 \<Longrightarrow> open_inv s \<Longrightarrow>
   \<exists>s'. run_bars symb ic r bs s = Inr s'"
proof (induction bs arbitrary: s)
  case Nil
  then show ?case by simp
next
  case (Cons b bs)
  from Cons.prems obtain s1 where s1: "backtest_step symb ic r b s = Inr s1"
    using step_returns [of b s symb ic r] by auto
  from Cons.IH [OF _ step_open_inv [OF s1 Cons.prems(2)]] Cons.prems(1) s1
  show ?case by simp
qed

lemma backtest_strategy_returns:
  assumes "\<forall>b \<in> set data. Close b \<noteq> 0 \<and> ATR b \<noteq> 0"
  shows "\<exists>trs pf. backtest_strategy data symb ic r = Inr (trs, pf)"
proof -
  from run_returns [OF assms initial_open_inv] obtain s where
    s: "run_bars symb ic r data (initial_state ic) = Inr s"
    by blast
  have o: "open_inv s"
    using run_open_inv [OF s initial_open_inv] .
  have "\<exists>s'. forced_closure data s = Inr s'"
  proof (cases "position s = 0")
    case True
    then show ?thesis by (simp add: forced_closure_def)
  next
    case False
    with o have "trades s \<noteq> []" by (simp add: open_inv_def)
    moreover have "data \<noteq> []" using run_nonempty [OF s False] .
    ultimately show ?thesis using False by (simp add: forced_closure_def Let_def)
  qed
  with s show ?thesis by (auto simp: backtest_strategy_def)
qed

subsection \<open>The two embeddings agree\<close>

lemma agrees_Fin [simp]: "agrees a (Fin a)"
  by (simp add: agrees_def finite_np_def)

lemma agrees_cases:
  assumes "agrees a x"
  obtains "x = Fin a" | "x = NegZero" "a = 0"
  using assms by (cases x) (auto simp: agrees_def finite_np_def)

lemma agrees_neg: "agrees a x \<Longrightarrow> agrees (- a) (np_neg x)"
  by (erule agrees_cases) (simp_all add: np_defs agrees_def finite_np_def)

lemma agrees_abs: "agrees a x \<Longrightarrow> agrees \<bar>a\<bar> (np_abs x)"
  by (erule agrees_cases) (simp_all add: np_defs agrees_def finite_np_def)

lemma agrees_mul: "agrees a x \<Longrightarrow> agrees b y \<Longrightarrow> agrees (a * b) (np_mul x y)"
  by (erule agrees_cases; erule agrees_cases)
     (auto simp: np_defs agrees_def finite_np_def)

lemma agrees_add: "agrees a x \<Longrightarrow> agrees b y \<Longrightarrow> agrees (a + b) (np_add x y)"
  by (erule agrees_cases; erule agrees_cases)
     (auto simp: np_defs agrees_def finite_np_def)

lemma agrees_sub: "agrees a x \<Longrightarrow> agrees b y \<Longrightarrow> agrees (a - b) (np_sub x y)"
  using agrees_add [of a x "- b" "np_neg y"] agrees_neg [of b y]
  by (simp add: np_sub_def)

lemma agrees_div:
  "agrees a x \<Longrightarrow> agrees b y \<Longrightarrow> b \<noteq> 0 \<Longrightarrow> agrees (a / b) (np_div x y)"
  by (erule agrees_cases; erule agrees_cases)
     (auto simp: np_defs agrees_def finite_np_def)

lemma agrees_lt: "agrees a x \<Longrightarrow> agrees b y \<Longrightarrow> np_lt x y \<longleftrightarrow> a < b"
  by (erule agrees_cases; erule agrees_cases) (auto simp: np_defs)

lemma agrees_gt: "agrees a x \<Longrightarrow> agrees b y \<Longrightarrow> np_gt x y \<longleftrightarrow> a > b"
  by (simp add: np_gt_def agrees_lt)

lemma agrees_le: "agrees a x \<Longrightarrow> agrees b y \<Longrightarrow> np_le x y \<longleftrightarrow> a \<le> b"
  by (erule agrees_cases; erule agrees_cases) (auto simp: np_defs)

lemma agrees_ge: "agrees a x \<Longrightarrow> agrees b y \<Longrightarrow> np_ge x y \<longleftrightarrow> a \<ge> b"
  by (simp add: np_ge_def agrees_le)

lemma agrees_eq: "agrees a x \<Longrightarrow> agrees b y \<Longrightarrow> np_eq x y \<longleftrightarrow> a = b"
  by (auto simp: np_eq_def agrees_le)

lemma agrees_ne: "agrees a x \<Longrightarrow> agrees b y \<Longrightarrow> np_ne x y \<longleftrightarrow> a \<noteq> b"
  by (simp add: np_ne_def agrees_eq)

lemma agrees_min: "agrees a x \<Longrightarrow> agrees b y \<Longrightarrow> agrees (min a b) (py_min x y)"
  by (auto simp: py_min_def agrees_lt min_def)

lemma agrees_max: "agrees a x \<Longrightarrow> agrees b y \<Longrightarrow> agrees (max a b) (py_max x y)"
  by (auto simp: py_max_def agrees_gt max_def)

text \<open>The same facts as rewrite rules, on finite numbers.\<close>

lemma agrees_self: "finite_np x \<Longrightarrow> agrees (fin_val x) x"
  by (simp add: agrees_def)

lemma finite_Fin [simp]: "finite_np (Fin a)"
  by (simp add: finite_np_def)

lemma fin_ops:
  assumes "finite_np x" "finite_np y"
  shows "finite_np (np_mul x y)" "fin_val (np_mul x y) = fin_val x * fin_val y"
    "finite_np (np_add x y)" "fin_val (np_add x y) = fin_val x + fin_val y"
    "finite_np (np_sub x y)" "fin_val (np_sub x y) = fin_val x - fin_val y"
    "finite_np (py_min x y)" "fin_val (py_min x y) = min (fin_val x) (fin_val y)"
    "finite_np (py_max x y)" "fin_val (py_max x y) = max (fin_val x) (fin_val y)"
    "np_lt x y \<longleftrightarrow> fin_val x < fin_val y" "np_gt x y \<longleftrightarrow> fin_val x > fin_val y"
    "np_le x y \<longleftrightarrow> fin_val x \<le> fin_val y" "np_ge x y \<longleftrightarrow> fin_val x \<ge> fin_val y"
    "np_eq x y \<longleftrightarrow> fin_val x = fin_val y" "np_ne x y \<longleftrightarrow> fin_val x \<noteq> fin_val y"
  using agrees_mul [OF agrees_self [OF assms(1)] agrees_self [OF assms(2)]]
    agrees_add [OF agrees_self [OF assms(1)] agrees_self [OF assms(2)]]
    agrees_sub [OF agrees_self [OF assms(1)] agrees_self [OF assms(2)]]
    agrees_min [OF agrees_self [OF assms(1)] agrees_self [OF assms(2)]]
    agrees_max [OF agrees_self [OF assms(1)] agrees_self [OF assms(2)]]
    agrees_lt [OF agrees_self [OF assms(1)] agrees_self [OF assms(2)]]
    agrees_gt [OF agrees_self [OF assms(1)] agrees_self [OF assms(2)]]
    agrees_le [OF agrees_self [OF assms(1)] agrees_self [OF assms(2)]]
    agrees_ge [OF agrees_self [OF assms(1)] agrees_self [OF assms(2)]]
    agrees_eq [OF agrees_self [OF assms(1)] agrees_self [OF assms(2)]]
    agrees_ne [OF agrees_self [OF assms(1)] agrees_self [OF assms(2)]]
  by (simp_all add: agrees_def)

lemma fin_unary:
  assumes "finite_np x"
  shows "finite_np (np_neg x)" "fin_val (np_neg x) = - fin_val x"
    "finite_np (np_abs x)" "fin_val (np_abs x) = \<bar>fin_val x\<bar>"
  using agrees_neg [OF agrees_self [OF assms]] agrees_abs [OF agrees_self [OF assms]]
  by (simp_all add: agrees_def)

lemma fin_div:
  assumes "finite_np x" "finite_np y" "fin_val y \<noteq> 0"
  shows "finite_np (np_div x y)" "fin_val (np_div x y) = fin_val x / fin_val y"
  using agrees_div [OF agrees_self [OF assms(1)] agrees_self [OF assms(2)] assms(3)]
  by (simp_all add: agrees_def)

lemma fin_stop_loss:
  assumes "finite_np v"
  shows "finite_np (stop_loss_np (Fin atr) v)"
    "fin_val (stop_loss_np (Fin atr) v) = stop_loss atr (fin_val v)"
  using assms by (simp_all add: stop_loss_np_def stop_loss_def fin_ops)

lemma fin_take_profit:
  assumes "finite_np v"
  shows "finite_np (take_profit_np (Fin atr) v)"
    "fin_val (take_profit_np (Fin atr) v) = take_profit atr (fin_val v)"
  using assms by (simp_all add: take_profit_np_def take_profit_def fin_ops)

lemma fin_position_size_factor:
  assumes "finite_np v" "fin_val v \<noteq> 0"
  shows "finite_np (position_size_factor_np v)"
    "fin_val (position_size_factor_np v) = position_size_factor (fin_val v)"
  using assms
  by (simp_all add: position_size_factor_np_def position_size_factor_def fin_ops fin_div)

lemma close_last_agrees:
  assumes "list_all2 trade_agrees ts us" "ts \<noteq> []" "agrees e en" "agrees p pn"
  shows "list_all2 trade_agrees (close_last ts e p) (close_last_np us en pn)"
proof -
  from assms(1) have len: "length ts = length us" by (rule list_all2_lengthD)
  with assms(2) have une: "us \<noteq> []" by auto
  have "list_all2 trade_agrees (butlast ts @ [last ts]) (butlast us @ [last us])"
    using assms(1,2) une by simp
  moreover have "length (butlast ts) = length (butlast us)"
    using len by simp
  ultimately have b: "list_all2 trade_agrees (butlast ts) (butlast us)"
    and l: "trade_agrees (last ts) (last us)"
    by (simp_all add: list_all2_append)
  from l assms(3,4) have
    "trade_agrees ((last ts)\<lparr>exit_price := Some e, profit := Some p, status := Closed\<rparr>)
       ((last us)\<lparr>exit_price_np := Some en, profit_np := Some pn, status_np := Closed\<rparr>)"
    by (simp add: trade_agrees_def)
  with b show ?thesis
    by (simp add: close_last_def close_last_np_def list_all2_appendI)
qed

lemma open_trade_agrees: "trade_agrees (open_trade b symb d) (open_trade_np b symb d)"
  by (simp add: trade_agrees_def open_trade_def open_trade_np_def)

lemma step_agrees:
  assumes "state_agrees s u" "backtest_step symb ic r b s = Inr s'"
  shows "\<exists>u'. backtest_step_np symb ic r b u = Inr u' \<and> state_agrees s' u'"
proof -
  from assms(1) have
    f: "finite_np (position_np u)" "finite_np (portfolio_np u)" "finite_np (entry_price_np u)"
      "finite_np (trailing_stop_np u)" and
    v: "fin_val (position_np u) = position s" "fin_val (portfolio_np u) = portfolio s"
      "fin_val (entry_price_np u) = entry_price s"
      "fin_val (trailing_stop_np u) = trailing_stop s" and
    t: "list_all2 trade_agrees (trades s) (trades_np u)"
    by (simp_all add: state_agrees_def agrees_def)
  from assms(2) have c: "Close b \<noteq> 0"
    by (auto simp: backtest_step_def split: if_splits)
  let ?vf = "np_div (Fin (ATR b)) (Fin (Close b))"
  have vf: "finite_np ?vf" "fin_val ?vf = ATR b / Close b"
    using c by (simp_all add: fin_div)
  have sl: "finite_np (stop_loss_np (Fin (ATR b)) ?vf)"
    "fin_val (stop_loss_np (Fin (ATR b)) ?vf) = stop_loss (ATR b) (ATR b / Close b)"
    using vf by (simp_all add: fin_stop_loss)
  have tp: "finite_np (take_profit_np (Fin (ATR b)) ?vf)"
    "fin_val (take_profit_np (Fin (ATR b)) ?vf) = take_profit (ATR b) (ATR b / Close b)"
    using vf by (simp_all add: fin_take_profit)
  have flat: "np_eq (position_np u) (Fin 0) \<longleftrightarrow> position s = 0"
    "np_ne (position_np u) (Fin 0) \<longleftrightarrow> position s \<noteq> 0"
    using f(1) v(1) by (simp_all add: fin_ops)
  have tne: "trades_np u = [] \<longleftrightarrow> trades s = []"
    using list_all2_lengthD [OF t] by auto
  consider (long) "Signal b = 1" "position s = 0"
    | (short) "Signal b \<noteq> 1" "Signal b = - 1" "position s = 0"
    | (held) "position s \<noteq> 0"
    | (idle) "Signal b \<noteq> 1" "Signal b \<noteq> - 1" "position s = 0"
    by blast
  then show ?thesis
  proof cases
    case long
    with assms(2) c have nz: "ATR b / Close b \<noteq> 0" "stop_loss (ATR b) (ATR b / Close b) \<noteq> 0"
      by (auto simp: backtest_step_def Let_def split: if_splits)
    have psf: "finite_np (position_size_factor_np ?vf)"
      "fin_val (position_size_factor_np ?vf) = position_size_factor (ATR b / Close b)"
      using vf nz(1) by (simp_all add: fin_position_size_factor)
    from long assms(2) c nz have s': "s' = s\<lparr>position :=
          (ic * r * position_size_factor (ATR b / Close b)) / stop_loss (ATR b) (ATR b / Close b),
        entry_price := Close b, trailing_stop := Close b - ATR b,
        trades := trades s @ [open_trade b symb Long]\<rparr>"
      by (simp add: backtest_step_def Let_def)
    from long flat have e: "np_eq (position_np u) (Fin 0)" by simp
    show ?thesis
      unfolding step_np_entry_long [OF long(1) e] s'
      using f v t sl psf nz
      by (simp add: state_agrees_def agrees_def fin_ops fin_div list_all2_appendI
          open_trade_agrees)
  next
    case short
    with assms(2) c have nz: "ATR b / Close b \<noteq> 0" "stop_loss (ATR b) (ATR b / Close b) \<noteq> 0"
      by (auto simp: backtest_step_def Let_def split: if_splits)
    have psf: "finite_np (position_size_factor_np ?vf)"
      "fin_val (position_size_factor_np ?vf) = position_size_factor (ATR b / Close b)"
      using vf nz(1) by (simp_all add: fin_position_size_factor)
    from short assms(2) c nz have s': "s' = s\<lparr>position :=
          - (ic * r * position_size_factor (ATR b / Close b))
            / stop_loss (ATR b) (ATR b / Close b),
        entry_price := Close b, trailing_stop := Close b + ATR b,
        trades := trades s @ [open_trade b symb Short]\<rparr>"
      by (simp add: backtest_step_def Let_def)
    from short flat have e: "np_eq (position_np u) (Fin 0)" by simp
    show ?thesis
      unfolding step_np_entry_short [OF short(2) e] s'
      using f v t sl psf nz
      by (simp add: state_agrees_def agrees_def fin_ops fin_unary fin_div list_all2_appendI
          open_trade_agrees)
  next
    case idle
    with assms(2) c have "s' = s" by (simp add: backtest_step_def Let_def)
    moreover from idle flat have "backtest_step_np symb ic r b u = Inr u"
      by (simp add: backtest_step_np_def Let_def)
    ultimately show ?thesis using assms(1) by simp
  next
    case held
    let ?ep = "Fin (Close b)"
    let ?tsn = "(if np_gt (position_np u) (Fin 0) \<and>
                    np_gt ?ep (np_add (entry_price_np u) (Fin (ATR b)))
                 then py_max (trailing_stop_np u) (np_sub ?ep (np_mul (Fin (ATR b)) (Fin 1.5)))
                 else if np_lt (position_np u) (Fin 0) \<and>
                         np_lt ?ep (np_sub (entry_price_np u) (Fin (ATR b)))
                 then py_min (trailing_stop_np u) (np_add ?ep (np_mul (Fin (ATR b)) (Fin 1.5)))
                 else trailing_stop_np u)"
    let ?ts = "(if position s > 0 \<and> Close b > entry_price s + ATR b
                 then max (trailing_stop s) (Close b - ATR b * 1.5)
               else if position s < 0 \<and> Close b < entry_price s - ATR b
                 then min (trailing_stop s) (Close b + ATR b * 1.5)
               else trailing_stop s)"
    have ts: "finite_np ?tsn" "fin_val ?tsn = ?ts"
      using f v by (simp_all add: fin_ops)
    let ?tpn = "take_profit_np (Fin (ATR b)) ?vf"
    let ?tp = "take_profit (ATR b) (ATR b / Close b)"
    have n: "\<not> np_eq (position_np u) (Fin 0)" "np_ne (position_np u) (Fin 0)"
      using held flat by simp_all
    have g: "np_gt (position_np u) (Fin 0) \<longleftrightarrow> position s > 0"
      and l: "np_lt (position_np u) (Fin 0) \<longleftrightarrow> position s < 0"
      using f(1) v(1) by (simp_all add: fin_ops)
    have xl: "np_ge ?ep (np_add (entry_price_np u) ?tpn) \<or> np_le ?ep ?tsn \<longleftrightarrow>
        Close b \<ge> entry_price s + ?tp \<or> Close b \<le> ?ts"
      using f v tp ts by (simp only: fin_ops finite_Fin fin_val.simps) 
    have xs: "np_le ?ep (np_sub (entry_price_np u) ?tpn) \<or> np_ge ?ep ?tsn \<longleftrightarrow>
        Close b \<le> entry_price s - ?tp \<or> Close b \<ge> ?ts"
      using f v tp ts by (simp only: fin_ops finite_Fin fin_val.simps)
    consider (exit_long) "position s > 0" "Close b \<ge> entry_price s + ?tp \<or> Close b \<le> ?ts"
      | (exit_short) "position s < 0" "Close b \<le> entry_price s - ?tp \<or> Close b \<ge> ?ts"
      | (keep) "\<not> (position s > 0 \<and> (Close b \<ge> entry_price s + ?tp \<or> Close b \<le> ?ts))"
          "\<not> (position s < 0 \<and> (Close b \<le> entry_price s - ?tp \<or> Close b \<ge> ?ts))"
      by blast
    then show ?thesis
    proof cases
      case exit_long
      let ?pr = "(Close b - entry_price s) * position s"
      let ?prn = "np_mul (np_sub ?ep (entry_price_np u)) (position_np u)"
      from exit_long held assms(2) c have tr: "trades s \<noteq> []"
        by (auto simp: backtest_step_def Let_def split: if_splits)
      from exit_long held assms(2) c tr have s': "s' = s\<lparr>trailing_stop := ?ts,
          portfolio := portfolio s + ?pr, position := 0,
          trades := close_last (trades s) (Close b) ?pr\<rparr>"
        by (simp add: backtest_step_def Let_def)
      have c1: "np_gt (position_np u) (Fin 0)" using g exit_long(1) by simp
      have c2: "np_ge ?ep (np_add (entry_price_np u) ?tpn) \<or> np_le ?ep ?tsn"
        using xl exit_long(2) by blast
      have tn: "trades_np u \<noteq> []" using tne tr by simp
      have u': "backtest_step_np symb ic r b u =
          Inr (u\<lparr>trailing_stop_np := ?tsn, portfolio_np := np_add (portfolio_np u) ?prn,
                 position_np := Fin 0,
                 trades_np := close_last_np (trades_np u) ?ep ?prn\<rparr>)"
        using n c1 c2 tn by (simp add: backtest_step_np_def Let_def)
      have pr: "agrees ?pr ?prn"
        using f v by (simp add: agrees_def fin_ops)
      show ?thesis
        unfolding u' s'
        using f v t ts pr close_last_agrees [OF t tr agrees_Fin pr]
        by (simp add: state_agrees_def agrees_def fin_ops)
    next
      case exit_short
      let ?pr = "(entry_price s - Close b) * \<bar>position s\<bar>"
      let ?prn = "np_mul (np_sub (entry_price_np u) ?ep) (np_abs (position_np u))"
      from exit_short have nl: "\<not> position s > 0" by simp
      from exit_short held assms(2) c have tr: "trades s \<noteq> []"
        by (auto simp: backtest_step_def Let_def split: if_splits)
      from exit_short nl held assms(2) c tr have s': "s' = s\<lparr>trailing_stop := ?ts,
          portfolio := portfolio s + ?pr, position := 0,
          trades := close_last (trades s) (Close b) ?pr\<rparr>"
        by (simp add: backtest_step_def Let_def)
      have c0: "\<not> np_gt (position_np u) (Fin 0)" using g nl by simp
      have c1: "np_lt (position_np u) (Fin 0)" using l exit_short(1) by simp
      have c2: "np_le ?ep (np_sub (entry_price_np u) ?tpn) \<or> np_ge ?ep ?tsn"
        using xs exit_short(2) by blast
      have tn: "trades_np u \<noteq> []" using tne tr by simp
      have u': "backtest_step_np symb ic r b u =
          Inr (u\<lparr>trailing_stop_np := ?tsn, portfolio_np := np_add (portfolio_np u) ?prn,
                 position_np := Fin 0,
                 trades_np := close_last_np (trades_np u) ?ep ?prn\<rparr>)"
        using n c0 c1 c2 tn by (simp add: backtest_step_np_def Let_def)
      have pr: "agrees ?pr ?prn"
        using f v by (simp add: agrees_def fin_ops fin_unary)
      show ?thesis
        unfolding u' s'
        using f v t ts pr close_last_agrees [OF t tr agrees_Fin pr]
        by (simp add: state_agrees_def agrees_def fin_ops)
    next
      case keep
      define tsr where "tsr = ?ts"
      have k: "\<not> (position s > 0 \<and> (Close b \<ge> entry_price s + ?tp \<or> Close b \<le> tsr))"
        "\<not> (position s < 0 \<and> (Close b \<le> entry_price s - ?tp \<or> Close b \<ge> tsr))"
        using keep unfolding tsr_def by blast+
      have "backtest_step symb ic r b s = Inr (s\<lparr>trailing_stop := tsr\<rparr>)"
        using k held c unfolding backtest_step_def Let_def tsr_def [symmetric]
        by auto
      with assms(2) have s': "s' = s\<lparr>trailing_stop := ?ts\<rparr>"
        by (simp add: tsr_def)
      define tsn where "tsn = ?tsn"
      have c1: "\<not> (np_gt (position_np u) (Fin 0) \<and>
          (np_ge ?ep (np_add (entry_price_np u) ?tpn) \<or> np_le ?ep tsn))"
        using keep(1) g xl unfolding tsn_def by blast
      have c2: "\<not> (np_lt (position_np u) (Fin 0) \<and>
          (np_le ?ep (np_sub (entry_price_np u) ?tpn) \<or> np_ge ?ep tsn))"
        using keep(2) l xs unfolding tsn_def by blast
      have "backtest_step_np symb ic r b u = Inr (u\<lparr>trailing_stop_np := tsn\<rparr>)"
        using n c1 c2 unfolding backtest_step_np_def Let_def tsn_def [symmetric]
        by auto
      then have u': "backtest_step_np symb ic r b u = Inr (u\<lparr>trailing_stop_np := ?tsn\<rparr>)"
        by (simp only: tsn_def)
      show ?thesis
        unfolding u' s'
        using f v t ts by (simp add: state_agrees_def agrees_def)
    qed
  qed
qed

lemma run_agrees:
  "state_agrees s u \<Longrightarrow> run_bars symb ic r bs s = Inr s' \<Longrightarrow>
   \<exists>u'. run_bars_np symb ic r bs u = Inr u' \<and> state_agrees s' u'"
proof (induction bs arbitrary: s u)
  case Nil
  then show ?case by simp
next
  case (Cons b bs)
  from Cons.prems(2) obtain s1 where
    s1: "backtest_step symb ic r b s = Inr s1" and rest: "run_bars symb ic r bs s1 = Inr s'"
    by (auto split: sum.splits)
  from step_agrees [OF Cons.prems(1) s1] obtain u1 where
    u1: "backtest_step_np symb ic r b u = Inr u1" and a1: "state_agrees s1 u1"
    by blast
  from Cons.IH [OF a1 rest] u1 show ?case by simp
qed

lemma forced_closure_agrees:
  assumes "state_agrees s u" "forced_closure data s = Inr s'"
  shows "\<exists>u'. forced_closure_np data u = Inr u' \<and> state_agrees s' u'"
proof -
  from assms(1) have
    f: "finite_np (position_np u)" "finite_np (portfolio_np u)" "finite_np (entry_price_np u)"
      "finite_np (trailing_stop_np u)" and
    v: "fin_val (position_np u) = position s" "fin_val (portfolio_np u) = portfolio s"
      "fin_val (entry_price_np u) = entry_price s"
      "fin_val (trailing_stop_np u) = trailing_stop s" and
    t: "list_all2 trade_agrees (trades s) (trades_np u)"
    by (simp_all add: state_agrees_def agrees_def)
  have flat: "np_ne (position_np u) (Fin 0) \<longleftrightarrow> position s \<noteq> 0"
    and g: "np_gt (position_np u) (Fin 0) \<longleftrightarrow> position s > 0"
    using f(1) v(1) by (simp_all add: fin_ops)
  have tne: "trades_np u = [] \<longleftrightarrow> trades s = []"
    using list_all2_lengthD [OF t] by auto
  show ?thesis
  proof (cases "position s = 0")
    case True
    with assms(2) have "s' = s" by (simp add: forced_closure_def)
    moreover from True flat have "forced_closure_np data u = Inr u"
      by (simp add: forced_closure_np_def)
    ultimately show ?thesis using assms(1) by simp
  next
    case False
    with assms(2) have ne: "trades s \<noteq> []" "data \<noteq> []"
      by (auto simp: forced_closure_def split: if_splits)
    let ?ep = "Fin (Close (last data))"
    let ?pr = "(if position s > 0 then (Close (last data) - entry_price s) * position s
               else (entry_price s - Close (last data)) * \<bar>position s\<bar>)"
    let ?prn = "(if np_gt (position_np u) (Fin 0)
                  then np_mul (np_sub ?ep (entry_price_np u)) (position_np u)
                else np_mul (np_sub (entry_price_np u) ?ep) (np_abs (position_np u)))"
    from False assms(2) ne have s': "s' = s\<lparr>portfolio := portfolio s + ?pr,
        trades := close_last (trades s) (Close (last data)) ?pr\<rparr>"
      by (simp add: forced_closure_def Let_def)
    from False flat tne ne have u': "forced_closure_np data u =
        Inr (u\<lparr>portfolio_np := np_add (portfolio_np u) ?prn,
               trades_np := close_last_np (trades_np u) ?ep ?prn\<rparr>)"
      by (simp add: forced_closure_np_def Let_def)
    have pr: "agrees ?pr ?prn"
      using f v g by (simp add: agrees_def fin_ops fin_unary)
    show ?thesis
      unfolding u' s'
      using f v pr close_last_agrees [OF t ne(1) agrees_Fin pr]
      by (simp add: state_agrees_def agrees_def fin_ops)
  qed
qed

lemma initial_agrees: "state_agrees (initial_state ic) (initial_state_np ic)"
  by (simp add: state_agrees_def initial_state_def initial_state_np_def)

text \<open>
  Whenever the first embedding returns, the second returns the same trades and the same
  portfolio value: every theorem about a returning run of the first is a theorem about
  the second.
\<close>

lemma backtest_strategy_agrees:
  assumes "backtest_strategy data symb ic r = Inr (trs, pf)"
  shows "\<exists>trsn pfn. backtest_strategy_np data symb ic r = Inr (trsn, pfn) \<and>
           list_all2 trade_agrees trs trsn \<and> agrees pf pfn"
proof -
  from assms obtain s1 s2 where
    run: "run_bars symb ic r data (initial_state ic) = Inr s1" and
    fc: "forced_closure data s1 = Inr s2" and
    res: "trs = trades s2" "pf = portfolio s2"
    by (auto simp: backtest_strategy_def split: sum.splits)
  from run_agrees [OF initial_agrees run] obtain u1 where
    u1: "run_bars_np symb ic r data (initial_state_np ic) = Inr u1" and a1: "state_agrees s1 u1"
    by blast
  from forced_closure_agrees [OF a1 fc] obtain u2 where
    u2: "forced_closure_np data u1 = Inr u2" and a2: "state_agrees s2 u2"
    by blast
  from u1 u2 have "backtest_strategy_np data symb ic r = Inr (trades_np u2, portfolio_np u2)"
    by (simp add: backtest_strategy_np_def)
  with a2 res show ?thesis
    by (simp add: state_agrees_def)
qed

end
